theory Spec2Isabelle
  imports Main "HOL-Library.AList"
begin

section \<open>Tenant data model (package tenant)\<close>

text \<open>
  Go strings are byte sequences; they are modelled as \<open>string\<close> (a list of
  8-bit characters), so \<open>length\<close> is Go's \<open>len\<close>.  Timestamps are opaque
  clock readings.
\<close>

type_synonym time = nat

text \<open>\<open>type Resources struct\<close>: five quantity strings.\<close>

record Resources =
  AgentCPU :: string
  AgentMemory :: string
  GatewayCPU :: string
  GatewayMemory :: string
  WorkspaceSize :: string

text \<open>
  \<open>type Tenant struct\<close>.  \<open>ConfigJSON\<close> is a \<open>json.RawMessage\<close>: the
  serialised bytes of the configuration document.
\<close>

record Tenant =
  ID :: string
  DisplayName :: string
  Namespace :: string
  ConfigJSON :: string
  Resources :: Resources
  Status :: string
  CreatedAt :: time
  UpdatedAt :: time

text \<open>
  Values of Go's \<open>interface{}\<close> as \<open>encoding/json\<close> produces and consumes
  them.  A \<open>map[string]interface{}\<close> is an association list read through
  \<open>map_of\<close>; an assignment \<open>m[k] = v\<close> is \<open>AList.update k v m\<close>.
  Numbers are only carried, never computed with.
\<close>

datatype json =
  JNull
  | JBool bool
  | JNumber int
  | JString string
  | JArray "json list"
  | JObject "(string \<times> json) list"

type_synonym json_object = "(string \<times> json) list"

text \<open>
  \<open>type CreateRequest struct\<close> and \<open>type UpdateRequest struct\<close>.  A nil map
  and a nil \<open>*Resources\<close> are \<open>None\<close>.
\<close>

record CreateRequest =
  cr_TenantID :: string
  cr_DisplayName :: string
  cr_Providers :: "json_object option"
  cr_Agents :: "json_object option"
  cr_Channels :: "json_object option"
  cr_Resources :: "Resources option"

record UpdateRequest =
  ur_DisplayName :: string
  ur_Providers :: "json_object option"
  ur_Agents :: "json_object option"
  ur_Channels :: "json_object option"
  ur_Resources :: "Resources option"

text \<open>\<open>type TenantVars struct\<close>: the variables handed to the templates.\<close>

record TenantVars =
  v_TenantID :: string
  v_Namespace :: string
  v_ConfigJSON :: string
  v_Image :: string
  v_AgentReplicas :: int
  v_AgentCPU :: string
  v_AgentMemory :: string
  v_GatewayCPU :: string
  v_GatewayMemory :: string
  v_WorkspaceSize :: string
  v_Labels :: "(string \<times> string) list"

subsection \<open>Errors\<close>

text \<open>
  A Go \<open>error\<close> of this program is built in one of five ways, and the model keeps
  the construction instead of the formatted text:
  \<^item> \<open>fmt.Errorf\<close> of a fixed text about the request (\<open>ValidationError\<close>);
  \<^item> \<open>fmt.Errorf("tenant %q already exists", id)\<close> (\<open>ConflictError id\<close>) and
    \<open>fmt.Errorf("tenant %q not found", id)\<close> (\<open>NotFoundError id\<close>);
  \<^item> an error returned by a library, the database driver or the cluster
    (\<open>External\<close>, with its text);
  \<^item> \<open>fmt.Errorf("<context>: %w", err)\<close> (\<open>Wrap context err\<close>, the
    context without its colon);
  \<^item> a run-time panic (\<open>Panic\<close>).
\<close>

datatype error =
  ValidationError string
  | ConflictError string
  | NotFoundError string
  | External string
  | Wrap string error
  | Panic string

subsection \<open>Validation\<close>

text \<open>
  \<open>dnsNameRegex = ^[a-z0-9]([a-z0-9\-]{0,61}[a-z0-9])?$\<close>.  Go's \<open>$\<close> without
  the multi-line flag matches at the end of the text only.  After the first
  character either nothing follows, or between 1 and 62 characters follow, the last
  of them alphanumeric and the others alphanumeric or a hyphen.
\<close>

definition lower_alnum :: "char \<Rightarrow> bool" where
  "lower_alnum c = (c \<in> set ''abcdefghijklmnopqrstuvwxyz0123456789'')"

definition label_char :: "char \<Rightarrow> bool" where
  "label_char c = (lower_alnum c \<or> c = CHR ''-'')"

definition dnsNameRegex_MatchString :: "string \<Rightarrow> bool" where
  "dnsNameRegex_MatchString s =
     (case s of
        [] \<Rightarrow> False
      | c # rest \<Rightarrow>
          lower_alnum c \<and>
          (rest = [] \<or>
           (length rest \<le> 62 \<and> list_all label_char (butlast rest) \<and> lower_alnum (last rest))))"

definition validateTenantID :: "string \<Rightarrow> error option" where
  "validateTenantID tid =
     (if tid = [] then Some (ValidationError ''tenant_id is required'')
      else if length tid > 53 then Some (ValidationError ''tenant_id too long (max 53 characters)'')
      else if \<not> dnsNameRegex_MatchString tid then
        Some (ValidationError
          ''tenant_id must be a valid DNS subdomain (lowercase alphanumeric and hyphens)'')
      else None)"

subsection \<open>Resources\<close>

definition DefaultResources :: Resources where
  "DefaultResources =
     \<lparr>AgentCPU = ''500m'', AgentMemory = ''1Gi'', GatewayCPU = ''250m'',
      GatewayMemory = ''512Mi'', WorkspaceSize = ''500Mi''\<rparr>"

text \<open>\<open>mergeResources\<close> updates its by-value copy of \<open>base\<close> field by field.\<close>

definition mergeResources :: "Resources \<Rightarrow> Resources \<Rightarrow> Resources" where
  "mergeResources base override =
     (let base = (if AgentCPU override \<noteq> [] then base\<lparr>AgentCPU := AgentCPU override\<rparr> else base);
          base = (if AgentMemory override \<noteq> [] then base\<lparr>AgentMemory := AgentMemory override\<rparr> else base);
          base = (if GatewayCPU override \<noteq> [] then base\<lparr>GatewayCPU := GatewayCPU override\<rparr> else base);
          base = (if GatewayMemory override \<noteq> [] then base\<lparr>GatewayMemory := GatewayMemory override\<rparr> else base);
          base = (if WorkspaceSize override \<noteq> [] then base\<lparr>WorkspaceSize := WorkspaceSize override\<rparr> else base)
      in base)"

definition ToVars :: "Tenant \<Rightarrow> string \<Rightarrow> TenantVars" where
  "ToVars t img =
     \<lparr>v_TenantID = ID t,
      v_Namespace = Namespace t,
      v_ConfigJSON = ConfigJSON t,
      v_Image = img,
      v_AgentReplicas = 1,
      v_AgentCPU = AgentCPU (Resources t),
      v_AgentMemory = AgentMemory (Resources t),
      v_GatewayCPU = GatewayCPU (Resources t),
      v_GatewayMemory = GatewayMemory (Resources t),
      v_WorkspaceSize = WorkspaceSize (Resources t),
      v_Labels = [(''app.kubernetes.io/managed-by'', ''picoclaw-manager''),
                  (''picoclaw.io/tenant'', ID t)]\<rparr>"


section \<open>Collaborators outside the repository\<close>

text \<open>
  The functions below are called by the program and implemented elsewhere
  (\<open>encoding/json\<close>, \<open>text/template\<close> with the template files,
  \<open>k8s.io/apimachinery\<close>, \<open>bytes\<close>/\<open>strings\<close>, the cluster's API server,
  the SQL driver, the clock).  Each is a parameter of the model; a library error
  is its text (\<open>Inl\<close>).
\<close>

text \<open>
  \<open>json.MarshalIndent(m, "    ", "  ")\<close> of a map, and \<open>json.Unmarshal\<close> into a
  \<open>map[string]interface{}\<close> variable that is nil before the call: the JSON text
  \<open>null\<close> leaves the map nil (\<open>Inr None\<close>).
\<close>

record json_lib =
  MarshalIndent :: "json_object \<Rightarrow> string + string"
  Unmarshal :: "string \<Rightarrow> string + json_object option"

text \<open>
  \<open>unstructured.Unstructured\<close>, by what the applier reads of it: the group and
  version of its \<open>apiVersion\<close>, its kind, namespace and name, and its content.
\<close>

record unstructured =
  u_Group :: string
  u_Version :: string
  u_Kind :: string
  u_Namespace :: string
  u_Name :: string
  u_Body :: string

text \<open>
  \<open>Read\<close> lists what the successive calls \<open>reader.Read()\<close> of a
  \<open>yamlutil.NewYAMLReader\<close> over the data return before \<open>io.EOF\<close>.
  \<open>UnmarshalJSON\<close> is the method of \<open>unstructured.Unstructured\<close>; the
  library's returns an error for a document that declares no kind, and the
  statements that rest on this name it as an assumption.
\<close>

record k8s_lib =
  Read :: "string \<Rightarrow> (string + string) list"
  TrimSpace :: "string \<Rightarrow> string"
  ToJSON :: "string \<Rightarrow> string + string"
  UnmarshalJSON :: "string \<Rightarrow> string + unstructured"
  MarshalJSON :: "unstructured \<Rightarrow> string + string"

text \<open>
  The requests that change the cluster, as the program issues them:
  \<open>dr.Patch(ctx, name, types.ApplyPatchType, data, PatchOptions{FieldManager})\<close> on
  a resource, within a namespace or not, and
  \<open>Namespaces().Delete(ctx, namespace, ...)\<close>.  The cluster's state is the list of
  the requests issued so far, oldest first, whatever the cluster answered.
\<close>

datatype cluster_call =
  PatchCall string "string option" string string string
  | DeleteNamespaceCall string

record rest_mapping =
  Resource :: string
  Scope :: string

text \<open>
  The answers of the API server.  Each may depend on the requests issued before it.
  \<open>NewDiscoveryClient\<close> is the error of \<open>discovery.NewDiscoveryClientForConfig\<close>,
  \<open>RESTMapping\<close> takes the group, the kind and the version.
\<close>

record cluster_api =
  NewDiscoveryClient :: "string option"
  RESTMapping :: "cluster_call list \<Rightarrow> string \<Rightarrow> string \<Rightarrow> string \<Rightarrow> string + rest_mapping"
  Patch :: "cluster_call list \<Rightarrow> cluster_call \<Rightarrow> string option"
  Namespaces_Delete :: "cluster_call list \<Rightarrow> string \<Rightarrow> string option"

text \<open>
  The errors of the SQL driver other than a violated constraint, one for each
  statement of the store.
\<close>

record db_driver =
  Insert_err :: "string option"
  QueryRow_err :: "string option"
  Query_err :: "string option"
  Update_err :: "string option"
  Delete_err :: "string option"

section \<open>Renderer (package templates)\<close>

definition templateNames :: "string list" where
  "templateNames =
     [''namespace.yaml.tmpl'', ''configmap.yaml.tmpl'', ''pvc.yaml.tmpl'', ''rbac.yaml.tmpl'',
      ''agent-deployment.yaml.tmpl'', ''gateway-deployment.yaml.tmpl'',
      ''gateway-service.yaml.tmpl'']"

text \<open>
  A renderer is its \<open>ExecuteTemplate\<close>: from a template name and the variables,
  the text written to the buffer or an error.  \<open>render_loop\<close> is the loop of
  \<open>RenderAll\<close> from index \<open>i\<close> on.
\<close>

type_synonym Renderer = "string \<Rightarrow> TenantVars \<Rightarrow> string + string"

fun render_loop :: "Renderer \<Rightarrow> TenantVars \<Rightarrow> nat \<Rightarrow> string list \<Rightarrow> string \<Rightarrow> error + string" where
  "render_loop r vars i [] buf = Inr buf"
| "render_loop r vars i (name # names) buf =
     (let buf = (if i > 0 then buf @ ''---'' @ [CHR 0x0A] else buf)
      in case r name vars of
           Inl e \<Rightarrow> Inl (Wrap (''render template '' @ name) (External e))
         | Inr out \<Rightarrow> render_loop r vars (Suc i) names (buf @ out))"

definition RenderAll :: "Renderer \<Rightarrow> TenantVars \<Rightarrow> error + string" where
  "RenderAll r vars = render_loop r vars 0 templateNames []"

section \<open>Applier (package k8s)\<close>

text \<open>
  The loop of \<open>parseYAMLDocuments\<close> over the documents still to be read, with
  the objects collected so far.
\<close>

fun parse_loop :: "k8s_lib \<Rightarrow> (string + string) list \<Rightarrow> unstructured list \<Rightarrow> error + unstructured list" where
  "parse_loop L [] objects = Inr objects"
| "parse_loop L (Inl e # reads) objects = Inl (External e)"
| "parse_loop L (Inr doc # reads) objects =
     (let doc = TrimSpace L doc
      in if length doc = 0 \<or> TrimSpace L doc = ''---'' then parse_loop L reads objects
         else case ToJSON L doc of
                Inl e \<Rightarrow> Inl (Wrap ''convert YAML to JSON'' (External e))
              | Inr jsonData \<Rightarrow>
                  (case UnmarshalJSON L jsonData of
                     Inl e \<Rightarrow> Inl (Wrap ''unmarshal JSON'' (External e))
                   | Inr obj \<Rightarrow>
                       if u_Kind obj = [] then parse_loop L reads objects
                       else parse_loop L reads (objects @ [obj])))"

definition parseYAMLDocuments :: "k8s_lib \<Rightarrow> string \<Rightarrow> error + unstructured list" where
  "parseYAMLDocuments L data = parse_loop L (Read L data) []"

text \<open>\<open>GroupVersionKind.String()\<close>, for the text of an error.\<close>

definition gvk_String :: "unstructured \<Rightarrow> string" where
  "gvk_String obj = u_Group obj @ ''/'' @ u_Version obj @ '', Kind='' @ u_Kind obj"

record Applier =
  lib :: k8s_lib
  client :: cluster_api

text \<open>
  The loop of \<open>Apply\<close> over the objects.  A patch request is recorded when it is
  issued, before the cluster's answer is looked at.
\<close>

fun apply_loop :: "Applier \<Rightarrow> unstructured list \<Rightarrow> cluster_call list \<Rightarrow> error option \<times> cluster_call list" where
  "apply_loop a [] cl = (None, cl)"
| "apply_loop a (obj # objects) cl =
     (case RESTMapping (client a) cl (u_Group obj) (u_Kind obj) (u_Version obj) of
        Inl e \<Rightarrow> (Some (Wrap (''find REST mapping for '' @ gvk_String obj) (External e)), cl)
      | Inr mapping \<Rightarrow>
          (let ns = (if Scope mapping = ''namespace'' then Some (u_Namespace obj) else None)
           in case MarshalJSON (lib a) obj of
                Inl e \<Rightarrow> (Some (Wrap (''marshal '' @ u_Kind obj @ ''/'' @ u_Name obj) (External e)), cl)
              | Inr data \<Rightarrow>
                  (let call = PatchCall (Resource mapping) ns (u_Name obj) data ''picoclaw-manager''
                   in case Patch (client a) cl call of
                        Some e \<Rightarrow>
                          (Some (Wrap (''apply '' @ u_Kind obj @ ''/'' @ u_Name obj) (External e)),
                           cl @ [call])
                      | None \<Rightarrow> apply_loop a objects (cl @ [call]))))"

definition Apply :: "Applier \<Rightarrow> string \<Rightarrow> cluster_call list \<Rightarrow> error option \<times> cluster_call list" where
  "Apply a manifests cl =
     (case parseYAMLDocuments (lib a) manifests of
        Inl e \<Rightarrow> (Some (Wrap ''parse manifests'' e), cl)
      | Inr objects \<Rightarrow>
          (case NewDiscoveryClient (client a) of
             Some e \<Rightarrow> (Some (Wrap ''build REST mapper'' (External e)), cl)
           | None \<Rightarrow> apply_loop a objects cl))"

definition DeleteNamespace :: "Applier \<Rightarrow> string \<Rightarrow> cluster_call list \<Rightarrow> error option \<times> cluster_call list" where
  "DeleteNamespace a namespace cl =
     (case Namespaces_Delete (client a) cl namespace of
        Some e \<Rightarrow> (Some (Wrap (''delete namespace '' @ namespace) (External e)),
                   cl @ [DeleteNamespaceCall namespace])
      | None \<Rightarrow> (None, cl @ [DeleteNamespaceCall namespace]))"


section \<open>Store (package tenant, store.go)\<close>

text \<open>
  The table \<open>tenants\<close> is the list of its rows in insertion order, a row being a
  \<open>Tenant\<close> (the column \<open>resources\<close> holds the JSON encoding of the five
  strings, read back as written).  Each method runs one SQL statement: it fails
  with the driver's error, or acts on the rows as the statement says.  The table
  declares \<open>id\<close> as primary key and \<open>namespace\<close> as unique, so an insert that
  repeats either is refused.
\<close>

definition Store_Create :: "db_driver \<Rightarrow> Tenant \<Rightarrow> Tenant list \<Rightarrow> error option \<times> Tenant list" where
  "Store_Create d t rows =
     (case Insert_err d of
        Some e \<Rightarrow> (Some (Wrap ''insert tenant'' (External e)), rows)
      | None \<Rightarrow>
          if list_ex (\<lambda>r. ID r = ID t) rows then
            (Some (Wrap ''insert tenant'' (External ''duplicate key: tenants_pkey'')), rows)
          else if list_ex (\<lambda>r. Namespace r = Namespace t) rows then
            (Some (Wrap ''insert tenant'' (External ''duplicate key: tenants_namespace_key'')), rows)
          else (None, rows @ [t]))"

definition Store_Get :: "db_driver \<Rightarrow> string \<Rightarrow> Tenant list \<Rightarrow> error + Tenant option" where
  "Store_Get d tid rows =
     (case QueryRow_err d of
        Some e \<Rightarrow> Inl (Wrap ''get tenant'' (External e))
      | None \<Rightarrow> Inr (find (\<lambda>r. ID r = tid) rows))"

text \<open>\<open>ORDER BY created_at\<close>; rows of equal time are kept in insertion order.\<close>

definition Store_List :: "db_driver \<Rightarrow> Tenant list \<Rightarrow> error + Tenant list" where
  "Store_List d rows =
     (case Query_err d of
        Some e \<Rightarrow> Inl (Wrap ''list tenants'' (External e))
      | None \<Rightarrow> Inr (sort_key CreatedAt rows))"

text \<open>
  \<open>Store.Update\<close> writes \<open>UpdatedAt\<close> into the caller's tenant (it holds a
  pointer) before it runs the statement, so the tenant is returned as well.
\<close>

definition Store_Update :: "db_driver \<Rightarrow> time \<Rightarrow> Tenant \<Rightarrow> Tenant list \<Rightarrow> error option \<times> Tenant \<times> Tenant list" where
  "Store_Update d now t rows =
     (let t = t\<lparr>UpdatedAt := now\<rparr>
      in case Update_err d of
           Some e \<Rightarrow> (Some (Wrap ''update tenant'' (External e)), t, rows)
         | None \<Rightarrow>
             if \<not> list_ex (\<lambda>r. ID r = ID t) rows then (Some (NotFoundError (ID t)), t, rows)
             else (None, t,
                   map (\<lambda>r. if ID r = ID t
                            then r\<lparr>DisplayName := DisplayName t, ConfigJSON := ConfigJSON t,
                                   Resources := Resources t, Status := Status t,
                                   UpdatedAt := UpdatedAt t\<rparr>
                            else r) rows))"

definition Store_Delete :: "db_driver \<Rightarrow> string \<Rightarrow> Tenant list \<Rightarrow> error option \<times> Tenant list" where
  "Store_Delete d tid rows =
     (case Delete_err d of
        Some e \<Rightarrow> (Some (Wrap ''delete tenant'' (External e)), rows)
      | None \<Rightarrow>
          if \<not> list_ex (\<lambda>r. ID r = tid) rows then (Some (NotFoundError tid), rows)
          else (None, filter (\<lambda>r. ID r \<noteq> tid) rows))"

section \<open>Service (package tenant)\<close>

text \<open>
  \<open>type Service struct\<close>, with the packages it calls: \<open>store\<close> is the driver
  under the store, \<open>clock n\<close> is what the call number \<open>n\<close> of \<open>time.Now()\<close>
  within one operation returns.
\<close>

record Service =
  store :: db_driver
  renderer :: Renderer
  applier :: Applier
  image' :: string
  json_pkg :: json_lib
  clock :: "nat \<Rightarrow> time"

text \<open>What the operations act on: the table of the store and the cluster.\<close>

record world =
  db :: "Tenant list"
  cluster :: "cluster_call list"

definition buildConfigJSON :: "json_lib \<Rightarrow> json_object option \<Rightarrow> json_object option \<Rightarrow> json_object option \<Rightarrow> error + string" where
  "buildConfigJSON j providers agents channels =
     (let config = [(''gateway'', JObject [(''host'', JString ''0.0.0.0''), (''port'', JNumber 18790)])];
          config = (case providers of Some p \<Rightarrow> AList.update ''providers'' (JObject p) config | None \<Rightarrow> config);
          config = (case agents of Some a \<Rightarrow> AList.update ''agents'' (JObject a) config | None \<Rightarrow> config);
          config = (case channels of Some c \<Rightarrow> AList.update ''channels'' (JObject c) config | None \<Rightarrow> config)
      in case MarshalIndent j config of
           Inl e \<Rightarrow> Inl (External e)
         | Inr data \<Rightarrow> Inr data)"

definition Service_Create :: "Service \<Rightarrow> CreateRequest \<Rightarrow> world \<Rightarrow> (error + Tenant) \<times> world" where
  "Service_Create s req w =
     (case validateTenantID (cr_TenantID req) of
        Some e \<Rightarrow> (Inl e, w)
      | None \<Rightarrow>
     (if cr_DisplayName req = [] then (Inl (ValidationError ''display_name is required''), w)
      else
     (case Store_Get (store s) (cr_TenantID req) (db w) of
        Inl e \<Rightarrow> (Inl (Wrap ''check existing'' e), w)
      | Inr (Some existing) \<Rightarrow> (Inl (ConflictError (cr_TenantID req)), w)
      | Inr None \<Rightarrow>
     (case buildConfigJSON (json_pkg s) (cr_Providers req) (cr_Agents req) (cr_Channels req) of
        Inl e \<Rightarrow> (Inl (Wrap ''build config'' e), w)
      | Inr configJSON \<Rightarrow>
     (let resources = DefaultResources;
          resources = (case cr_Resources req of
                         Some r \<Rightarrow> mergeResources resources r
                       | None \<Rightarrow> resources);
          now = clock s 0;
          t = \<lparr>ID = cr_TenantID req,
               DisplayName = cr_DisplayName req,
               Namespace = ''picoclaw-tenant-'' @ cr_TenantID req,
               ConfigJSON = configJSON,
               Resources = resources,
               Status = ''provisioning'',
               CreatedAt = now,
               UpdatedAt = now\<rparr>
      in
     (case RenderAll (renderer s) (ToVars t (image' s)) of
        Inl e \<Rightarrow> (Inl (Wrap ''render templates'' e), w)
      | Inr manifests \<Rightarrow>
     (case Apply (applier s) manifests (cluster w) of
        (Some e, cl) \<Rightarrow> (Inl (Wrap ''apply manifests'' e), w\<lparr>cluster := cl\<rparr>)
      | (None, cl) \<Rightarrow>
     (case Store_Create (store s) t (db w) of
        (Some e, rows) \<Rightarrow>
          (let (cleanup, cl) = DeleteNamespace (applier s) (Namespace t) cl
           in (Inl (Wrap ''store tenant'' e), \<lparr>db = rows, cluster = cl\<rparr>))
      | (None, rows) \<Rightarrow>
          (let t = t\<lparr>Status := ''active''\<rparr>;
               (ignored, t, rows) = Store_Update (store s) (clock s 1) t rows
           in (Inr t, \<lparr>db = rows, cluster = cl\<rparr>))))))))))"

definition Service_Get :: "Service \<Rightarrow> string \<Rightarrow> world \<Rightarrow> error + Tenant option" where
  "Service_Get s tid w =
     (case Store_Get (store s) tid (db w) of
        Inl e \<Rightarrow> Inl e
      | Inr None \<Rightarrow> Inr None
      | Inr (Some t) \<Rightarrow> Inr (Some t))"

definition Service_List :: "Service \<Rightarrow> world \<Rightarrow> error + Tenant list" where
  "Service_List s w = Store_List (store s) (db w)"

text \<open>
  The block of \<open>Update\<close> that rebuilds the configuration document when the request
  supplies \<open>providers\<close>, \<open>agents\<close> or \<open>channels\<close>.  All three assignments are
  to the map that \<open>json.Unmarshal\<close> filled; when it is still nil the first
  assignment panics.
\<close>

definition rebuild_config :: "json_lib \<Rightarrow> UpdateRequest \<Rightarrow> Tenant \<Rightarrow> error + Tenant" where
  "rebuild_config j req t =
     (if ur_Providers req \<noteq> None \<or> ur_Agents req \<noteq> None \<or> ur_Channels req \<noteq> None then
        case Unmarshal j (ConfigJSON t) of
          Inl e \<Rightarrow> Inl (Wrap ''unmarshal existing config'' (External e))
        | Inr None \<Rightarrow> Inl (Panic ''assignment to entry in nil map'')
        | Inr (Some existing) \<Rightarrow>
            (let existing = (case ur_Providers req of
                               Some p \<Rightarrow> AList.update ''providers'' (JObject p) existing
                             | None \<Rightarrow> existing);
                 existing = (case ur_Agents req of
                               Some a \<Rightarrow> AList.update ''agents'' (JObject a) existing
                             | None \<Rightarrow> existing);
                 existing = (case ur_Channels req of
                               Some c \<Rightarrow> AList.update ''channels'' (JObject c) existing
                             | None \<Rightarrow> existing)
             in case MarshalIndent j existing of
                  Inl e \<Rightarrow> Inl (Wrap ''marshal config'' (External e))
                | Inr configJSON \<Rightarrow> Inr (t\<lparr>ConfigJSON := configJSON\<rparr>))
      else Inr t)"

definition Service_Update :: "Service \<Rightarrow> string \<Rightarrow> UpdateRequest \<Rightarrow> world \<Rightarrow> (error + Tenant) \<times> world" where
  "Service_Update s tid req w =
     (case Store_Get (store s) tid (db w) of
        Inl e \<Rightarrow> (Inl e, w)
      | Inr None \<Rightarrow> (Inl (NotFoundError tid), w)
      | Inr (Some t0) \<Rightarrow>
     (let t = (if ur_DisplayName req \<noteq> [] then t0\<lparr>DisplayName := ur_DisplayName req\<rparr> else t0)
      in
     (case rebuild_config (json_pkg s) req t of
        Inl e \<Rightarrow> (Inl e, w)
      | Inr t \<Rightarrow>
     (let t = (case ur_Resources req of
                 Some r \<Rightarrow> t\<lparr>Resources := mergeResources (Resources t) r\<rparr>
               | None \<Rightarrow> t)
      in
     (case RenderAll (renderer s) (ToVars t (image' s)) of
        Inl e \<Rightarrow> (Inl (Wrap ''render templates'' e), w)
      | Inr manifests \<Rightarrow>
     (case Apply (applier s) manifests (cluster w) of
        (Some e, cl) \<Rightarrow> (Inl (Wrap ''apply manifests'' e), w\<lparr>cluster := cl\<rparr>)
      | (None, cl) \<Rightarrow>
     (case Store_Update (store s) (clock s 0) t (db w) of
        (Some e, t, rows) \<Rightarrow> (Inl (Wrap ''store update'' e), \<lparr>db = rows, cluster = cl\<rparr>)
      | (None, t, rows) \<Rightarrow> (Inr t, \<lparr>db = rows, cluster = cl\<rparr>))))))))"

definition Service_Delete :: "Service \<Rightarrow> string \<Rightarrow> world \<Rightarrow> error option \<times> world" where
  "Service_Delete s tid w =
     (case Store_Get (store s) tid (db w) of
        Inl e \<Rightarrow> (Some e, w)
      | Inr None \<Rightarrow> (Some (NotFoundError tid), w)
      | Inr (Some t) \<Rightarrow>
     (case DeleteNamespace (applier s) (Namespace t) (cluster w) of
        (Some e, cl) \<Rightarrow> (Some (Wrap ''delete namespace'' e), w\<lparr>cluster := cl\<rparr>)
      | (None, cl) \<Rightarrow>
     (let (err, rows) = Store_Delete (store s) tid (db w)
      in (err, \<lparr>db = rows, cluster = cl\<rparr>))))"

text \<open>
  The tenant that \<open>Create\<close> builds before rendering, as a function of the
  request and the serialised configuration document.
\<close>

definition provisioning_tenant :: "Service \<Rightarrow> CreateRequest \<Rightarrow> string \<Rightarrow> Tenant" where
  "provisioning_tenant s req configJSON =
     \<lparr>ID = cr_TenantID req,
      DisplayName = cr_DisplayName req,
      Namespace = ''picoclaw-tenant-'' @ cr_TenantID req,
      ConfigJSON = configJSON,
      Resources = (case cr_Resources req of
                     Some r \<Rightarrow> mergeResources DefaultResources r
                   | None \<Rightarrow> DefaultResources),
      Status = ''provisioning'',
      CreatedAt = clock s 0,
      UpdatedAt = clock s 0\<rparr>"

section \<open>Notions of the specification\<close>

text \<open>
  The DNS-label grammar in the specification's words: lowercase alphanumeric
  characters and hyphens, not starting or ending with a hyphen.
\<close>

definition starts_with_hyphen :: "string \<Rightarrow> bool" where
  "starts_with_hyphen s = (s \<noteq> [] \<and> hd s = CHR ''-'')"

definition ends_with_hyphen :: "string \<Rightarrow> bool" where
  "ends_with_hyphen s = (s \<noteq> [] \<and> last s = CHR ''-'')"

definition spec_dns_label :: "string \<Rightarrow> bool" where
  "spec_dns_label s =
     (list_all label_char s \<and> \<not> starts_with_hyphen s \<and> \<not> ends_with_hyphen s)"

text \<open>
  The documents of a manifest stream: a read that is empty or a bare separator
  after trimming is no document; the others are converted to a structured form.
  \<open>parsed_documents\<close> are the objects of the documents that convert, whatever
  their kind.
\<close>

definition is_blank :: "k8s_lib \<Rightarrow> string \<Rightarrow> bool" where
  "is_blank L doc = (TrimSpace L doc = [] \<or> TrimSpace L (TrimSpace L doc) = ''---'')"

definition decode_document :: "k8s_lib \<Rightarrow> string \<Rightarrow> unstructured option" where
  "decode_document L doc =
     (case ToJSON L (TrimSpace L doc) of
        Inl e \<Rightarrow> None
      | Inr jsonData \<Rightarrow> (case UnmarshalJSON L jsonData of Inl e \<Rightarrow> None | Inr obj \<Rightarrow> Some obj))"

definition parsed_documents :: "k8s_lib \<Rightarrow> string \<Rightarrow> unstructured list" where
  "parsed_documents L data =
     List.map_filter
       (\<lambda>r. case r of
               Inl e \<Rightarrow> None
             | Inr doc \<Rightarrow> if is_blank L doc then None else decode_document L doc)
       (Read L data)"

text \<open>A request submits an object: it is the apply patch of its name and content.\<close>

definition is_patch_of :: "k8s_lib \<Rightarrow> cluster_call \<Rightarrow> unstructured \<Rightarrow> bool" where
  "is_patch_of L call obj =
     (case call of
        PatchCall res ns name data manager \<Rightarrow>
          name = u_Name obj \<and> MarshalJSON L obj = Inr data \<and> manager = ''picoclaw-manager''
      | DeleteNamespaceCall ns \<Rightarrow> False)"

section \<open>Sample collaborators\<close>

text \<open>
  Small stand-ins for the libraries, the cluster and the driver, on which the
  operations can be evaluated.  The sample templates write one line
  \<open>kind: <template name>\<close> each; the sample reader splits a stream at the lines
  \<open>---\<close>; the sample decoder reads the kind after \<open>kind: \<close> and, as
  \<open>UnmarshalJSON\<close> of \<open>unstructured.Unstructured\<close> does, returns the error
  that the kind is missing for a document in which it finds none.
\<close>

fun lines_of :: "string \<Rightarrow> string \<Rightarrow> string list" where
  "lines_of cur [] = (if cur = [] then [] else [cur])"
| "lines_of cur (c # cs) = (if c = CHR 0x0A then cur # lines_of [] cs else lines_of (cur @ [c]) cs)"

fun docs_of_lines :: "string \<Rightarrow> string list \<Rightarrow> string list" where
  "docs_of_lines cur [] = [cur]"
| "docs_of_lines cur (l # ls) =
     (if l = ''---'' then cur # docs_of_lines [] ls else docs_of_lines (cur @ l @ [CHR 0x0A]) ls)"

definition is_space :: "char \<Rightarrow> bool" where
  "is_space c = (c \<in> set [CHR 0x09, CHR 0x0A, CHR 0x0B, CHR 0x0C, CHR 0x0D, CHR '' ''])"

definition sample_kind :: "string \<Rightarrow> string" where
  "sample_kind doc = (if take 6 doc = ''kind: '' then drop 6 doc else [])"

definition sample_lib :: k8s_lib where
  "sample_lib =
     \<lparr>Read = (\<lambda>data. map Inr (docs_of_lines [] (lines_of [] data))),
      TrimSpace = (\<lambda>s. rev (dropWhile is_space (rev (dropWhile is_space s)))),
      ToJSON = Inr,
      UnmarshalJSON =
        (\<lambda>doc. if sample_kind doc = [] then Inl ''Object Kind is missing''
               else Inr \<lparr>u_Group = [], u_Version = ''v1'', u_Kind = sample_kind doc,
                         u_Namespace = [], u_Name = sample_kind doc, u_Body = doc\<rparr>),
      MarshalJSON = (\<lambda>obj. Inr (u_Body obj))\<rparr>"

text \<open>
  The kinds that the documents of a stream declare to the sample decoder, in
  order, the reads that are no documents left out.
\<close>

definition declared_kinds :: "string \<Rightarrow> string list" where
  "declared_kinds data =
     map (\<lambda>r. case r of Inl e \<Rightarrow> [] | Inr doc \<Rightarrow> sample_kind (TrimSpace sample_lib doc))
       (filter (\<lambda>r. case r of Inl e \<Rightarrow> False | Inr doc \<Rightarrow> \<not> is_blank sample_lib doc)
          (Read sample_lib data))"

definition sample_cluster :: cluster_api where
  "sample_cluster =
     \<lparr>NewDiscoveryClient = None,
      RESTMapping = (\<lambda>cl g k v. Inr \<lparr>Resource = k, Scope = ''namespace''\<rparr>),
      Patch = (\<lambda>cl call. None),
      Namespaces_Delete = (\<lambda>cl ns. None)\<rparr>"

definition sample_applier :: Applier where
  "sample_applier = \<lparr>lib = sample_lib, client = sample_cluster\<rparr>"

definition sample_driver :: db_driver where
  "sample_driver =
     \<lparr>Insert_err = None, QueryRow_err = None, Query_err = None, Update_err = None,
      Delete_err = None\<rparr>"

text \<open>
  The sample JSON package writes a document as the list of its top-level keys,
  each with the keys of its object, and reads back the documents of the examples
  below.
\<close>

definition sample_gateway :: json where
  "sample_gateway = JObject [(''host'', JString ''0.0.0.0''), (''port'', JNumber 18790)]"

definition sample_keys :: "json \<Rightarrow> string" where
  "sample_keys v =
     (case v of
        JObject kvs \<Rightarrow> ''{'' @ concat (map (\<lambda>kv. fst kv @ '','') kvs) @ ''}''
      | _ \<Rightarrow> [])"

definition sample_json :: json_lib where
  "sample_json =
     \<lparr>MarshalIndent = (\<lambda>m. Inr (concat (map (\<lambda>kv. fst kv @ sample_keys (snd kv) @ '';'') m))),
      Unmarshal =
        (\<lambda>text. if text = ''gateway{host,port,};'' then Inr (Some [(''gateway'', sample_gateway)])
                else if text = ''gateway{host,port,};agents{main,};providers{anthropic,};'' then
                  Inr (Some [(''gateway'', sample_gateway),
                             (''agents'', JObject [(''main'', JString ''a1'')]),
                             (''providers'', JObject [(''anthropic'', JString ''old'')])])
                else if text = ''null'' then Inr None
                else Inl ''invalid character'')\<rparr>"

definition sample_service :: Service where
  "sample_service =
     \<lparr>store = sample_driver,
      renderer = (\<lambda>name vars. Inr (''kind: '' @ name @ [CHR 0x0A])),
      applier = sample_applier,
      image' = ''picoclaw:latest'',
      json_pkg = sample_json,
      clock = (\<lambda>n. 100 + n)\<rparr>"

definition empty_world :: world where
  "empty_world = \<lparr>db = [], cluster = []\<rparr>"

definition acme_request :: CreateRequest where
  "acme_request =
     \<lparr>cr_TenantID = ''acme'', cr_DisplayName = ''ACME'', cr_Providers = None,
      cr_Agents = None, cr_Channels = None, cr_Resources = None\<rparr>"


text \<open>What the sample templates render, for any tenant.\<close>

definition sample_manifests :: string where
  "sample_manifests =
     ''kind: namespace.yaml.tmpl'' @ [CHR 0x0A] @ ''---'' @ [CHR 0x0A] @
     ''kind: configmap.yaml.tmpl'' @ [CHR 0x0A] @ ''---'' @ [CHR 0x0A] @
     ''kind: pvc.yaml.tmpl'' @ [CHR 0x0A] @ ''---'' @ [CHR 0x0A] @
     ''kind: rbac.yaml.tmpl'' @ [CHR 0x0A] @ ''---'' @ [CHR 0x0A] @
     ''kind: agent-deployment.yaml.tmpl'' @ [CHR 0x0A] @ ''---'' @ [CHR 0x0A] @
     ''kind: gateway-deployment.yaml.tmpl'' @ [CHR 0x0A] @ ''---'' @ [CHR 0x0A] @
     ''kind: gateway-service.yaml.tmpl'' @ [CHR 0x0A]"

text \<open>
  A stream of four reads: a document of kind \<open>A\<close>, a document that declares no
  kind, a blank read, and a document of kind \<open>B\<close>.
\<close>

definition sample_stream :: string where
  "sample_stream =
     ''kind: A'' @ [CHR 0x0A] @ ''---'' @ [CHR 0x0A] @
     ''name: x'' @ [CHR 0x0A] @ ''---'' @ [CHR 0x0A] @
     ''   '' @ [CHR 0x0A] @ ''---'' @ [CHR 0x0A] @
     ''kind: B'' @ [CHR 0x0A]"

text \<open>
  A store whose insert fails, with a cluster that answers the deletion of a
  namespace as given.
\<close>

definition insert_failing_service :: "string option \<Rightarrow> Service" where
  "insert_failing_service cleanup =
     sample_service
       \<lparr>store := sample_driver\<lparr>Insert_err := Some ''connection refused''\<rparr>,
        applier := \<lparr>lib = sample_lib,
                    client = sample_cluster\<lparr>Namespaces_Delete := (\<lambda>cl ns. cleanup)\<rparr>\<rparr>\<rparr>"

text \<open>A world with the tenant \<open>acme\<close>, and requests to update it.\<close>

definition acme_tenant :: Tenant where
  "acme_tenant =
     \<lparr>ID = ''acme'', DisplayName = ''ACME'', Namespace = ''picoclaw-tenant-acme'',
      ConfigJSON = ''gateway{host,port,};agents{main,};providers{anthropic,};'',
      Resources = DefaultResources, Status = ''active'',
      CreatedAt = 100, UpdatedAt = 101\<rparr>"

definition acme_world :: world where
  "acme_world = \<lparr>db = [acme_tenant], cluster = []\<rparr>"

definition providers_request :: UpdateRequest where
  "providers_request =
     \<lparr>ur_DisplayName = [], ur_Providers = Some [(''openai'', JString ''key'')],
      ur_Agents = None, ur_Channels = None, ur_Resources = None\<rparr>"

definition rename_request :: UpdateRequest where
  "rename_request =
     \<lparr>ur_DisplayName = ''Acme Corp'', ur_Providers = None, ur_Agents = None,
      ur_Channels = None, ur_Resources = None\<rparr>"

section \<open>Validation of the tenant ID\<close>

lemma lower_alnum_not_hyphen: "lower_alnum c \<Longrightarrow> c \<noteq> CHR ''-''"
  by (auto simp: lower_alnum_def)

lemma lower_alnum_not_upper:
  "lower_alnum c \<Longrightarrow> c \<notin> set ''ABCDEFGHIJKLMNOPQRSTUVWXYZ_''"
  by (auto simp: lower_alnum_def)

lemma dnsNameRegex_spec_dns_label:
  assumes "dnsNameRegex_MatchString s"
  shows "spec_dns_label s"
proof (cases s)
  case Nil
  with assms show ?thesis by (simp add: dnsNameRegex_MatchString_def)
next
  case (Cons c rest)
  show ?thesis
  proof (cases "rest = []")
    case True
    with Cons assms show ?thesis
      by (auto simp: dnsNameRegex_MatchString_def spec_dns_label_def label_char_def
          starts_with_hyphen_def ends_with_hyphen_def dest: lower_alnum_not_hyphen)
  next
    case False
    with Cons assms have c: "lower_alnum c" and b: "list_all label_char (butlast rest)"
      and l: "lower_alnum (last rest)"
      by (auto simp: dnsNameRegex_MatchString_def)
    from False have "rest = butlast rest @ [last rest]" by simp
    then have "list_all label_char rest = (list_all label_char (butlast rest @ [last rest]))"
      by simp
    then have "list_all label_char rest = (list_all label_char (butlast rest) \<and> label_char (last rest))"
      by (simp only: list_all_append) simp
    with b l have "list_all label_char rest" by (simp add: label_char_def)
    with c l False Cons show ?thesis
      by (auto simp: spec_dns_label_def label_char_def starts_with_hyphen_def
          ends_with_hyphen_def dest: lower_alnum_not_hyphen)
  qed
qed

lemma spec_dns_label_no_upper:
  "spec_dns_label s \<Longrightarrow> \<not> list_ex (\<lambda>c. c \<in> set ''ABCDEFGHIJKLMNOPQRSTUVWXYZ_'') s"
  unfolding spec_dns_label_def list_ex_iff list_all_iff label_char_def
  using lower_alnum_not_upper by fastforce

lemma validateTenantID_None_iff:
  "validateTenantID tid = None \<longleftrightarrow> tid \<noteq> [] \<and> length tid \<le> 53 \<and> dnsNameRegex_MatchString tid"
  by (auto simp: validateTenantID_def)

lemma validateTenantID_Some:
  "validateTenantID tid = Some e \<Longrightarrow> \<exists>msg. e = ValidationError msg"
  by (auto simp: validateTenantID_def split: if_splits)

text \<open>
  The namespace of an accepted ID has at most 69 characters, and it is a DNS label
  when the ID has at most 47.
\<close>

lemma namespace_length_bound:
  "validateTenantID tid = None \<Longrightarrow> length (''picoclaw-tenant-'' @ tid) \<le> 69"
  by (simp add: validateTenantID_None_iff)

lemma namespace_label_up_to_47:
  assumes "validateTenantID tid = None" and "length tid \<le> 47"
  shows "dnsNameRegex_MatchString (''picoclaw-tenant-'' @ tid)"
proof -
  from assms(1) have ne: "tid \<noteq> []" and m: "dnsNameRegex_MatchString tid"
    by (simp_all add: validateTenantID_None_iff)
  from m have l: "spec_dns_label tid" by (rule dnsNameRegex_spec_dns_label)
  then have all: "list_all label_char tid" by (simp add: spec_dns_label_def)
  from m ne have last: "lower_alnum (last tid)"
    by (cases tid) (auto simp: dnsNameRegex_MatchString_def)
  from all ne have bl: "list_all label_char (butlast tid)"
    by (metis append_butlast_last_id list_all_append)
  have "butlast (''icoclaw-tenant-'' @ tid) = ''icoclaw-tenant-'' @ butlast tid"
    using ne by (simp add: butlast_append)
  moreover have "list_all label_char ''icoclaw-tenant-''"
    by (simp add: label_char_def lower_alnum_def)
  ultimately have "list_all label_char (butlast (''icoclaw-tenant-'' @ tid))"
    using bl by (simp only: list_all_append)
  moreover have "last (''icoclaw-tenant-'' @ tid) = last tid" using ne by simp
  moreover have "lower_alnum CHR ''p''" by (simp add: lower_alnum_def)
  moreover have "length (''icoclaw-tenant-'' @ tid) \<le> 62" using assms(2) by simp
  ultimately show ?thesis
    using last by (simp add: dnsNameRegex_MatchString_def)
qed

section \<open>Resource limits\<close>

text \<open>
  C2.  The merge of resource limits is field-wise: each field of the result is the
  field of the base where the override's field is the empty string, and the
  override's field otherwise.  In particular an override in which only
  \<open>agent_memory\<close> is non-empty changes that field and no other.
\<close>

theorem mergeResources_fieldwise:
  "AgentCPU (mergeResources base override) =
     (if AgentCPU override = [] then AgentCPU base else AgentCPU override) \<and>
   AgentMemory (mergeResources base override) =
     (if AgentMemory override = [] then AgentMemory base else AgentMemory override) \<and>
   GatewayCPU (mergeResources base override) =
     (if GatewayCPU override = [] then GatewayCPU base else GatewayCPU override) \<and>
   GatewayMemory (mergeResources base override) =
     (if GatewayMemory override = [] then GatewayMemory base else GatewayMemory override) \<and>
   WorkspaceSize (mergeResources base override) =
     (if WorkspaceSize override = [] then WorkspaceSize base else WorkspaceSize override) \<and>
   (AgentCPU override = [] \<and> AgentMemory override \<noteq> [] \<and> GatewayCPU override = [] \<and>
    GatewayMemory override = [] \<and> WorkspaceSize override = [] \<longrightarrow>
      mergeResources base override = base\<lparr>AgentMemory := AgentMemory override\<rparr>)"
  by (simp add: mergeResources_def Let_def)

text \<open>
  The scenario of the specification: \<open>agent_memory = "2Gi"\<close> over the defaults.
\<close>

theorem mergeResources_fieldwise_witness:
  "AgentMemory \<lparr>AgentCPU = [], AgentMemory = ''2Gi'', GatewayCPU = [], GatewayMemory = [],
      WorkspaceSize = []\<rparr> \<noteq> [] \<and>
   mergeResources DefaultResources
     \<lparr>AgentCPU = [], AgentMemory = ''2Gi'', GatewayCPU = [], GatewayMemory = [],
      WorkspaceSize = []\<rparr> =
   \<lparr>AgentCPU = ''500m'', AgentMemory = ''2Gi'', GatewayCPU = ''250m'',
    GatewayMemory = ''512Mi'', WorkspaceSize = ''500Mi''\<rparr>"
  using mergeResources_fieldwise [of DefaultResources
     "\<lparr>AgentCPU = [], AgentMemory = ''2Gi'', GatewayCPU = [], GatewayMemory = [],
      WorkspaceSize = []\<rparr>"]
  by (simp add: DefaultResources_def)

section \<open>The store\<close>

lemma Store_Get_None:
  "QueryRow_err d = None \<Longrightarrow> \<not> list_ex (\<lambda>r. ID r = tid) rows \<Longrightarrow> Store_Get d tid rows = Inr None"
  by (simp add: Store_Get_def find_None_iff list_ex_iff)

lemma Store_Get_existing:
  assumes "QueryRow_err d = None" and "list_ex (\<lambda>r. ID r = tid) rows"
  shows "\<exists>t. Store_Get d tid rows = Inr (Some t)"
proof -
  from assms(2) have "find (\<lambda>r. ID r = tid) rows \<noteq> None"
    by (auto simp: find_None_iff list_ex_iff)
  with assms(1) show ?thesis by (auto simp: Store_Get_def)
qed

lemma Store_Get_Some_row:
  "Store_Get d tid rows = Inr (Some t) \<Longrightarrow> t \<in> set rows \<and> ID t = tid \<and> QueryRow_err d = None"
  by (auto simp: Store_Get_def find_Some_iff split: option.splits)

lemma Store_Create_failure_rows:
  "Store_Create d t rows = (Some e, rows') \<Longrightarrow> rows' = rows"
  by (auto simp: Store_Create_def split: option.splits if_splits)

lemma Store_Create_success_rows:
  "Store_Create d t rows = (None, rows') \<Longrightarrow> rows' = rows @ [t]"
  by (auto simp: Store_Create_def split: option.splits if_splits)

lemma Store_Update_ids:
  "Store_Update d now t rows = (r, t', rows') \<Longrightarrow> map ID rows' = map ID rows"
  by (auto simp: Store_Update_def Let_def split: option.splits if_splits)

lemma Store_Update_tenant:
  "Store_Update d now t rows = (r, t', rows') \<Longrightarrow> t' = t\<lparr>UpdatedAt := now\<rparr>"
  by (auto simp: Store_Update_def Let_def split: option.splits if_splits)

lemma find_map_same_key:
  assumes "find (\<lambda>r. ID r = tid) rows = Some t0" and "\<And>r. ID (f r) = ID r"
  shows "find (\<lambda>r. ID r = tid) (map (\<lambda>r. if ID r = tid then f r else r) rows) = Some (f t0)"
  using assms by (induction rows) (auto split: if_splits)

lemma Store_Update_Get:
  assumes get: "Store_Get d tid rows = Inr (Some t0)" and tid: "ID t = tid"
    and upd: "Store_Update d now t rows = (r, t', rows')"
  shows "\<exists>t2. Store_Get d tid rows' = Inr (Some t2) \<and>
              (r = None \<longrightarrow> ConfigJSON t2 = ConfigJSON t \<and> Resources t2 = Resources t) \<and>
              (r \<noteq> None \<longrightarrow> t2 = t0)"
proof -
  from get have q: "QueryRow_err d = None" and f: "find (\<lambda>r. ID r = tid) rows = Some t0"
    by (auto simp: Store_Get_def split: option.splits)
  show ?thesis
  proof (cases r)
    case None
    let ?f = "\<lambda>r. r\<lparr>DisplayName := DisplayName t, ConfigJSON := ConfigJSON t,
                       Resources := Resources t, Status := Status t, UpdatedAt := now\<rparr>"
    from None upd tid have "rows' = map (\<lambda>r. if ID r = tid then ?f r else r) rows"
      by (auto simp: Store_Update_def Let_def split: option.splits if_splits)
    moreover have "find (\<lambda>r. ID r = tid) (map (\<lambda>r. if ID r = tid then ?f r else r) rows) = Some (?f t0)"
      by (rule find_map_same_key [OF f]) simp
    ultimately show ?thesis using q None by (simp add: Store_Get_def)
  next
    case (Some e)
    with upd have "rows' = rows"
      by (auto simp: Store_Update_def Let_def split: option.splits if_splits)
    with get Some show ?thesis by simp
  qed
qed

section \<open>The applier\<close>

lemma DeleteNamespace_calls:
  "snd (DeleteNamespace a ns cl) = cl @ [DeleteNamespaceCall ns]"
  by (simp add: DeleteNamespace_def split: option.splits)

lemma Apply_cases: "(\<exists>e cl. Apply a m c = (Some e, cl)) \<or> (\<exists>cl. Apply a m c = (None, cl))"
  by (cases "Apply a m c") (auto intro: option.exhaust)

lemma parse_loop_objects:
  "parse_loop L reads acc = Inr objects \<Longrightarrow>
   objects = acc @ filter (\<lambda>obj. u_Kind obj \<noteq> [])
     (List.map_filter
        (\<lambda>r. case r of
                Inl e \<Rightarrow> None
              | Inr doc \<Rightarrow> if is_blank L doc then None else decode_document L doc)
        reads)"
proof (induction reads arbitrary: acc)
  case Nil
  then show ?case by (simp add: map_filter_simps)
next
  case (Cons r reads)
  show ?case
  proof (cases r)
    case (Inl e)
    with Cons.prems show ?thesis by simp
  next
    case (Inr doc)
    show ?thesis
    proof (cases "is_blank L doc")
      case True
      with Inr Cons.prems have "parse_loop L reads acc = Inr objects"
        by (simp add: is_blank_def Let_def)
      from Cons.IH [OF this] True Inr show ?thesis by (simp add: map_filter_simps)
    next
      case False
      with Inr Cons.prems obtain jsonData obj where
        j: "ToJSON L (TrimSpace L doc) = Inr jsonData" and u: "UnmarshalJSON L jsonData = Inr obj"
        by (auto simp: is_blank_def Let_def split: sum.splits)
      then have d: "decode_document L doc = Some obj" by (simp add: decode_document_def)
      show ?thesis
      proof (cases "u_Kind obj = []")
        case True
        with Inr False j u Cons.prems have "parse_loop L reads acc = Inr objects"
          by (simp add: is_blank_def Let_def)
        from Cons.IH [OF this] True False Inr d show ?thesis by (simp add: map_filter_simps)
      next
        case nonempty: False
        with Inr False j u Cons.prems have "parse_loop L reads (acc @ [obj]) = Inr objects"
          by (simp add: is_blank_def Let_def)
        from Cons.IH [OF this] nonempty False Inr d show ?thesis by (simp add: map_filter_simps)
      qed
    qed
  qed
qed

lemma parseYAMLDocuments_objects:
  "parseYAMLDocuments L data = Inr objects \<Longrightarrow>
   objects = filter (\<lambda>obj. u_Kind obj \<noteq> []) (parsed_documents L data)"
  using parse_loop_objects [of L "Read L data" "[]" objects]
  by (simp add: parseYAMLDocuments_def parsed_documents_def)

lemma apply_loop_calls:
  "\<exists>calls. snd (apply_loop a objects cl) = cl @ calls \<and>
           list_all2 (is_patch_of (lib a)) calls (take (length calls) objects) \<and>
           (fst (apply_loop a objects cl) = None \<longrightarrow> length calls = length objects)"
proof (induction objects arbitrary: cl)
  case Nil
  then show ?case by simp
next
  case (Cons obj objects)
  show ?case
  proof (cases "RESTMapping (client a) cl (u_Group obj) (u_Kind obj) (u_Version obj)")
    case (Inl e)
    then have eq: "apply_loop a (obj # objects) cl =
        (Some (Wrap (''find REST mapping for '' @ gvk_String obj) (External e)), cl)"
      by simp
    show ?thesis unfolding eq by simp
  next
    case (Inr mapping)
    show ?thesis
    proof (cases "MarshalJSON (lib a) obj")
      case (Inl e)
      with Inr have eq: "apply_loop a (obj # objects) cl =
          (Some (Wrap (''marshal '' @ u_Kind obj @ ''/'' @ u_Name obj) (External e)), cl)"
        by (simp add: Let_def)
      show ?thesis unfolding eq by simp
    next
      case data: (Inr data)
      define call where "call = PatchCall (Resource mapping)
          (if Scope mapping = ''namespace'' then Some (u_Namespace obj) else None)
          (u_Name obj) data ''picoclaw-manager''"
      have p: "is_patch_of (lib a) call obj" by (simp add: is_patch_of_def call_def data)
      show ?thesis
      proof (cases "Patch (client a) cl call")
        case (Some e)
        with Inr data have eq: "apply_loop a (obj # objects) cl =
            (Some (Wrap (''apply '' @ u_Kind obj @ ''/'' @ u_Name obj) (External e)), cl @ [call])"
          by (simp add: call_def Let_def)
        show ?thesis unfolding eq
          by (rule exI [of _ "[call]"]) (use p in simp)
      next
        case None
        with Inr data have eq: "apply_loop a (obj # objects) cl = apply_loop a objects (cl @ [call])"
          by (simp add: call_def Let_def)
        from Cons.IH [of "cl @ [call]"] obtain calls where
          c: "snd (apply_loop a objects (cl @ [call])) = (cl @ [call]) @ calls"
          "list_all2 (is_patch_of (lib a)) calls (take (length calls) objects)"
          "fst (apply_loop a objects (cl @ [call])) = None \<longrightarrow> length calls = length objects"
          by (elim exE conjE) (rule that)
        show ?thesis unfolding eq
          by (rule exI [of _ "call # calls"]) (use c p in simp)
      qed
    qed
  qed
qed

text \<open>The sample collaborators, evaluated.\<close>

lemma sample_render: "RenderAll (renderer sample_service) vars = Inr sample_manifests"
  by (simp add: RenderAll_def templateNames_def sample_service_def sample_manifests_def)

lemma sample_apply: "fst (Apply sample_applier sample_manifests []) = None"
  by (simp add: Apply_def parseYAMLDocuments_def sample_applier_def sample_lib_def
      sample_kind_def sample_cluster_def is_space_def sample_manifests_def)

lemma sample_validate: "validateTenantID ''acme'' = None"
  by (simp add: validateTenantID_def dnsNameRegex_MatchString_def lower_alnum_def label_char_def)

lemma sample_config: "buildConfigJSON sample_json None None None = Inr ''gateway{host,port,};''"
  by (simp add: buildConfigJSON_def sample_json_def sample_keys_def)

lemma sample_get_acme:
  "Store_Get (store sample_service) ''acme'' (db acme_world) = Inr (Some acme_tenant)"
  by (simp add: Store_Get_def sample_service_def sample_driver_def acme_world_def acme_tenant_def)

lemma sample_lib_kind:
  "UnmarshalJSON sample_lib jsonData = Inr obj \<Longrightarrow> u_Kind obj \<noteq> []"
  by (auto simp: sample_lib_def split: if_splits)

lemma sample_declared_kinds: "declared_kinds sample_stream = [''A'', [], ''B'']"
  by (simp add: declared_kinds_def is_blank_def sample_kind_def sample_lib_def is_space_def
      sample_stream_def)

lemma sample_parse:
  "parseYAMLDocuments sample_lib sample_stream =
     Inl (Wrap ''unmarshal JSON'' (External ''Object Kind is missing''))"
  by (simp add: parseYAMLDocuments_def sample_lib_def sample_kind_def is_space_def
      sample_stream_def)

text \<open>
  Whatever the library does: when a read fails or a document does not convert,
  \<open>Apply\<close> returns the error and issues no request.  Otherwise the objects it
  goes on to apply are the parsed documents of non-empty kind, in order, and the
  requests it issues are apply patches of these objects, one each, in order, up to
  the first one that fails.
\<close>

lemma Apply_objects_and_calls:
  "(case parseYAMLDocuments (lib a) manifests of
      Inl e \<Rightarrow> Apply a manifests cl = (Some (Wrap ''parse manifests'' e), cl)
    | Inr objects \<Rightarrow>
        objects = filter (\<lambda>obj. u_Kind obj \<noteq> []) (parsed_documents (lib a) manifests) \<and>
        (\<exists>calls. snd (Apply a manifests cl) = cl @ calls \<and>
                 list_all2 (is_patch_of (lib a)) calls (take (length calls) objects) \<and>
                 (fst (Apply a manifests cl) = None \<longrightarrow> length calls = length objects)))"
proof (cases "parseYAMLDocuments (lib a) manifests")
  case (Inl e)
  then show ?thesis by (simp add: Apply_def)
next
  case (Inr objects)
  note objs = parseYAMLDocuments_objects [OF Inr]
  have "\<exists>calls. snd (Apply a manifests cl) = cl @ calls \<and>
                 list_all2 (is_patch_of (lib a)) calls (take (length calls) objects) \<and>
                 (fst (Apply a manifests cl) = None \<longrightarrow> length calls = length objects)"
  proof (cases "NewDiscoveryClient (client a)")
    case None
    with Inr have "Apply a manifests cl = apply_loop a objects cl" by (simp add: Apply_def)
    with apply_loop_calls [of a objects cl] show ?thesis by simp
  next
    case (Some e)
    with Inr have "Apply a manifests cl = (Some (Wrap ''build REST mapper'' (External e)), cl)"
      by (simp add: Apply_def)
    then show ?thesis by simp
  qed
  with Inr objs show ?thesis by simp
qed

text \<open>
  \<open>UnmarshalJSON\<close> of \<open>unstructured.Unstructured\<close> returns an object only when
  the document declares a kind.  With a library that does so, the test
  \<open>obj.GetKind() == ""\<close> of \<open>parseYAMLDocuments\<close> never holds: a stream that
  parses has no document dropped for its kind, and a document without a kind is
  not skipped but stops the parse with the library's error.
\<close>

lemma map_filter_member:
  "y \<in> set (List.map_filter f xs) \<Longrightarrow> \<exists>x\<in>set xs. f x = Some y"
  by (induction xs) (auto split: option.splits)

lemma kind_test_never_holds:
  assumes "\<And>jsonData obj. UnmarshalJSON L jsonData = Inr obj \<Longrightarrow> u_Kind obj \<noteq> []"
    and "parseYAMLDocuments L data = Inr objects"
  shows "objects = parsed_documents L data"
proof -
  have "u_Kind obj \<noteq> []" if "obj \<in> set (parsed_documents L data)" for obj
  proof -
    from that have "\<exists>r\<in>set (Read L data).
        (case r of
           Inl e \<Rightarrow> None
         | Inr doc \<Rightarrow> if is_blank L doc then None else decode_document L doc) = Some obj"
      unfolding parsed_documents_def by (rule map_filter_member)
    then obtain r :: "string + string" where r: "(case r of
           Inl e \<Rightarrow> None
         | Inr doc \<Rightarrow> if is_blank L doc then None else decode_document L doc) = Some obj"
      by (elim bexE) (rule that)
    have "\<exists>doc. decode_document L doc = Some obj"
    proof (cases r)
      case (Inl e)
      with r show ?thesis by simp
    next
      case (Inr doc)
      with r have "decode_document L doc = Some obj" by (simp split: if_splits)
      then show ?thesis ..
    qed
    then obtain doc where "decode_document L doc = Some obj"
      by (elim exE) (rule that)
    then obtain jsonData where "UnmarshalJSON L jsonData = Inr obj"
      by (auto simp: decode_document_def split: sum.splits)
    with assms(1) show ?thesis by simp
  qed
  then have "filter (\<lambda>obj. u_Kind obj \<noteq> []) (parsed_documents L data) = parsed_documents L data"
    by (simp add: filter_id_conv)
  with parseYAMLDocuments_objects [OF assms(2)] show ?thesis by simp
qed

text \<open>
  C8.  The sample stream holds three documents, of kinds \<open>A\<close>, none and \<open>B\<close>.
  The document without a kind is not skipped: the decoder refuses it,
  \<open>parseYAMLDocuments\<close> returns that error, and \<open>Apply\<close> returns it wrapped
  and submits nothing, where two documents declare a non-empty kind.
\<close>

theorem Apply_aborts_on_document_without_kind:
  "declared_kinds sample_stream = [''A'', [], ''B''] \<and>
   length (filter (\<lambda>k. k \<noteq> []) (declared_kinds sample_stream)) = 2 \<and>
   Apply sample_applier sample_stream [] =
     (Some (Wrap ''parse manifests''
              (Wrap ''unmarshal JSON'' (External ''Object Kind is missing''))), [])"
  by (simp add: sample_declared_kinds Apply_def sample_applier_def sample_parse)

section \<open>Create\<close>

lemma Service_Create_applied:
  assumes "validateTenantID (cr_TenantID req) = None"
    and "cr_DisplayName req \<noteq> []"
    and "Store_Get (store s) (cr_TenantID req) (db w) = Inr None"
    and "buildConfigJSON (json_pkg s) (cr_Providers req) (cr_Agents req) (cr_Channels req) = Inr configJSON"
    and "RenderAll (renderer s) (ToVars (provisioning_tenant s req configJSON) (image' s)) = Inr manifests"
    and "Apply (applier s) manifests (cluster w) = (None, cl)"
  shows "Service_Create s req w =
     (case Store_Create (store s) (provisioning_tenant s req configJSON) (db w) of
        (Some e, rows) \<Rightarrow>
          (Inl (Wrap ''store tenant'' e),
           \<lparr>db = rows,
            cluster = snd (DeleteNamespace (applier s) (''picoclaw-tenant-'' @ cr_TenantID req) cl)\<rparr>)
      | (None, rows) \<Rightarrow>
          (case Store_Update (store s) (clock s 1)
                  ((provisioning_tenant s req configJSON)\<lparr>Status := ''active''\<rparr>) rows of
             (ignored, t, rows) \<Rightarrow> (Inr t, \<lparr>db = rows, cluster = cl\<rparr>)))"
  using assms
  by (simp add: Service_Create_def provisioning_tenant_def Let_def split: option.splits prod.splits)

lemma Service_Create_success_row:
  assumes "Service_Create s req w = (Inr t, w')"
  shows "list_ex (\<lambda>r. ID r = cr_TenantID req) (db w')"
proof -
  from assms obtain configJSON cl rows ign t1 rows1 where
    sc: "Store_Create (store s) (provisioning_tenant s req configJSON) (db w) = (None, rows)"
    and su: "Store_Update (store s) (clock s 1)
               ((provisioning_tenant s req configJSON)\<lparr>Status := ''active''\<rparr>) rows = (ign, t1, rows1)"
    and w': "w' = \<lparr>db = rows1, cluster = cl\<rparr>"
    by (auto simp: Service_Create_def provisioning_tenant_def Let_def
        split: option.splits if_splits sum.splits prod.splits)
  from sc have "rows = db w @ [provisioning_tenant s req configJSON]"
    by (rule Store_Create_success_rows)
  then have "cr_TenantID req \<in> set (map ID rows)" by (simp add: provisioning_tenant_def)
  with Store_Update_ids [OF su] have "cr_TenantID req \<in> set (map ID rows1)" by simp
  with w' show ?thesis by (auto simp: list_ex_iff)
qed

lemma Service_Create_namespace:
  assumes "Service_Create s req w = (Inr t, w')"
  shows "validateTenantID (cr_TenantID req) = None \<and>
         Namespace t = ''picoclaw-tenant-'' @ cr_TenantID req"
proof -
  from assms have v: "validateTenantID (cr_TenantID req) = None"
    by (auto simp: Service_Create_def split: option.splits)
  from assms obtain configJSON rows ign rows1 where
    su: "Store_Update (store s) (clock s 1)
               ((provisioning_tenant s req configJSON)\<lparr>Status := ''active''\<rparr>) rows = (ign, t, rows1)"
    by (auto simp: Service_Create_def provisioning_tenant_def Let_def
        split: option.splits if_splits sum.splits prod.splits)
  from Store_Update_tenant [OF su] have "Namespace t = ''picoclaw-tenant-'' @ cr_TenantID req"
    by (simp add: provisioning_tenant_def)
  with v show ?thesis by simp
qed

lemma sample_create_any:
  assumes v: "validateTenantID (cr_TenantID req) = None" and d: "cr_DisplayName req \<noteq> []"
    and n: "cr_Providers req = None" "cr_Agents req = None" "cr_Channels req = None"
  shows "\<exists>t w'. Service_Create sample_service req empty_world = (Inr t, w')"
proof -
  define cl where "cl = snd (Apply sample_applier sample_manifests [])"
  have a: "Apply (applier sample_service) sample_manifests (cluster empty_world) = (None, cl)"
    using sample_apply by (simp add: cl_def prod_eq_iff sample_service_def empty_world_def)
  have g: "Store_Get (store sample_service) (cr_TenantID req) (db empty_world) = Inr None"
    by (simp add: Store_Get_def sample_service_def sample_driver_def empty_world_def)
  have c: "buildConfigJSON (json_pkg sample_service) (cr_Providers req)
             (cr_Agents req) (cr_Channels req) = Inr ''gateway{host,port,};''"
    using sample_config n by (simp add: sample_service_def)
  have s: "Store_Create (store sample_service)
             (provisioning_tenant sample_service req ''gateway{host,port,};'') (db empty_world) =
           (None, [provisioning_tenant sample_service req ''gateway{host,port,};''])"
    by (simp add: Store_Create_def sample_service_def sample_driver_def empty_world_def)
  show ?thesis
    unfolding Service_Create_applied [OF v d g c sample_render a] s
    by (simp split: prod.splits)
qed

lemma sample_create:
  "\<exists>t w'. Service_Create sample_service acme_request empty_world = (Inr t, w')"
  by (rule sample_create_any) (simp_all add: sample_validate acme_request_def)

text \<open>
  C4.  A tenant ID that violates the DNS-label grammar (it contains an uppercase
  letter or an underscore, or starts or ends with a hyphen, or has any other
  character outside the grammar) or that is longer than 53 characters makes
  \<open>Create\<close> return a \<open>ValidationError\<close>, and the store and the cluster are
  as before the call: no request was issued and no row written.
\<close>

theorem Create_rejects_invalid_tenant_id:
  assumes "list_ex (\<lambda>c. c \<in> set ''ABCDEFGHIJKLMNOPQRSTUVWXYZ_'') (cr_TenantID req) \<or>
           starts_with_hyphen (cr_TenantID req) \<or> ends_with_hyphen (cr_TenantID req) \<or>
           \<not> spec_dns_label (cr_TenantID req) \<or> 53 < length (cr_TenantID req)"
  shows "\<exists>msg. Service_Create s req w = (Inl (ValidationError msg), w)"
proof -
  from assms have "\<not> spec_dns_label (cr_TenantID req) \<or> 53 < length (cr_TenantID req)"
    using spec_dns_label_no_upper [of "cr_TenantID req"]
    by (auto simp: spec_dns_label_def)
  then have "validateTenantID (cr_TenantID req) \<noteq> None"
    using dnsNameRegex_spec_dns_label [of "cr_TenantID req"]
    by (auto simp: validateTenantID_None_iff)
  then obtain e where e: "validateTenantID (cr_TenantID req) = Some e" by auto
  then obtain msg where "e = ValidationError msg" using validateTenantID_Some by blast
  with e show ?thesis by (simp add: Service_Create_def)
qed

theorem Create_rejects_invalid_tenant_id_witness:
  "list_ex (\<lambda>c. c \<in> set ''ABCDEFGHIJKLMNOPQRSTUVWXYZ_'') ''ACME'' \<and>
   (\<exists>msg. Service_Create sample_service (acme_request\<lparr>cr_TenantID := ''ACME''\<rparr>) empty_world =
            (Inl (ValidationError msg), empty_world)) \<and>
   list_ex (\<lambda>c. c \<in> set ''ABCDEFGHIJKLMNOPQRSTUVWXYZ_'') ''ac_me'' \<and>
   (\<exists>msg. Service_Create sample_service (acme_request\<lparr>cr_TenantID := ''ac_me''\<rparr>) empty_world =
            (Inl (ValidationError msg), empty_world)) \<and>
   starts_with_hyphen ''-acme'' \<and>
   (\<exists>msg. Service_Create sample_service (acme_request\<lparr>cr_TenantID := ''-acme''\<rparr>) empty_world =
            (Inl (ValidationError msg), empty_world)) \<and>
   ends_with_hyphen ''acme-'' \<and>
   (\<exists>msg. Service_Create sample_service (acme_request\<lparr>cr_TenantID := ''acme-''\<rparr>) empty_world =
            (Inl (ValidationError msg), empty_world)) \<and>
   53 < length ''aaaaaaaaaaaaaaaaaaaaaaaaaaaaaaaaaaaaaaaaaaaaaaaaaaaaaa'' \<and>
   (\<exists>msg. Service_Create sample_service
            (acme_request\<lparr>cr_TenantID := ''aaaaaaaaaaaaaaaaaaaaaaaaaaaaaaaaaaaaaaaaaaaaaaaaaaaaaa''\<rparr>)
            empty_world =
            (Inl (ValidationError msg), empty_world))"
  using Create_rejects_invalid_tenant_id
          [of "acme_request\<lparr>cr_TenantID := ''ACME''\<rparr>" sample_service empty_world]
        Create_rejects_invalid_tenant_id
          [of "acme_request\<lparr>cr_TenantID := ''ac_me''\<rparr>" sample_service empty_world]
        Create_rejects_invalid_tenant_id
          [of "acme_request\<lparr>cr_TenantID := ''-acme''\<rparr>" sample_service empty_world]
        Create_rejects_invalid_tenant_id
          [of "acme_request\<lparr>cr_TenantID := ''acme-''\<rparr>" sample_service empty_world]
        Create_rejects_invalid_tenant_id
          [of "acme_request\<lparr>cr_TenantID := ''aaaaaaaaaaaaaaaaaaaaaaaaaaaaaaaaaaaaaaaaaaaaaaaaaaaaaa''\<rparr>"
              sample_service empty_world]
  by (simp add: starts_with_hyphen_def ends_with_hyphen_def)

text \<open>
  C1.  For a request with tenant ID \<open>acme\<close>, display name \<open>ACME\<close> and no
  resources, on a store that answers the lookup and holds no record for
  \<open>acme\<close>: when the configuration serialises, the templates render, the cluster
  accepts the manifests and the store inserts the record, \<open>Create\<close> succeeds
  and returns a tenant whose namespace is \<open>picoclaw-tenant-acme\<close>, whose
  resources are the defaults \<open>500m\<close>, \<open>1Gi\<close>, \<open>250m\<close>, \<open>512Mi\<close>,
  \<open>500Mi\<close>, and whose status is \<open>active\<close>.
\<close>

theorem Create_acme_defaults:
  assumes "cr_TenantID req = ''acme''" and "cr_DisplayName req = ''ACME''"
    and "cr_Resources req = None"
    and "QueryRow_err (store s) = None" and "\<not> list_ex (\<lambda>r. ID r = ''acme'') (db w)"
    and "buildConfigJSON (json_pkg s) (cr_Providers req) (cr_Agents req) (cr_Channels req) = Inr configJSON"
    and "RenderAll (renderer s) (ToVars (provisioning_tenant s req configJSON) (image' s)) = Inr manifests"
    and "Apply (applier s) manifests (cluster w) = (None, cl)"
    and "Store_Create (store s) (provisioning_tenant s req configJSON) (db w) = (None, rows)"
  shows "\<exists>t w'. Service_Create s req w = (Inr t, w') \<and>
           Namespace t = ''picoclaw-tenant-acme'' \<and>
           Resources t = DefaultResources \<and>
           Resources t = \<lparr>AgentCPU = ''500m'', AgentMemory = ''1Gi'', GatewayCPU = ''250m'',
                          GatewayMemory = ''512Mi'', WorkspaceSize = ''500Mi''\<rparr> \<and>
           Status t = ''active''"
proof -
  have v: "validateTenantID (cr_TenantID req) = None"
    using assms(1)
    by (simp add: validateTenantID_def dnsNameRegex_MatchString_def lower_alnum_def label_char_def)
  have d: "cr_DisplayName req \<noteq> []" using assms(2) by simp
  have g: "Store_Get (store s) (cr_TenantID req) (db w) = Inr None"
    using assms(1,4,5) by (simp add: Store_Get_None)
  obtain ign t rows' where
    su: "Store_Update (store s) (clock s 1)
           ((provisioning_tenant s req configJSON)\<lparr>Status := ''active''\<rparr>) rows = (ign, t, rows')"
    by (metis prod_cases3)
  have "Service_Create s req w = (Inr t, \<lparr>db = rows', cluster = cl\<rparr>)"
    using Service_Create_applied [OF v d g assms(6) assms(7) assms(8)] assms(9) su by simp
  moreover have "t = (provisioning_tenant s req configJSON)\<lparr>Status := ''active'', UpdatedAt := clock s 1\<rparr>"
    using Store_Update_tenant [OF su] by simp
  ultimately show ?thesis
    using assms(1,3) by (simp add: provisioning_tenant_def DefaultResources_def)
qed

theorem Create_acme_defaults_witness:
  "cr_TenantID acme_request = ''acme'' \<and> cr_DisplayName acme_request = ''ACME'' \<and>
   cr_Resources acme_request = None \<and>
   \<not> list_ex (\<lambda>r. ID r = ''acme'') (db empty_world) \<and>
   (\<exists>t w'. Service_Create sample_service acme_request empty_world = (Inr t, w') \<and>
           Namespace t = ''picoclaw-tenant-acme'' \<and>
           Resources t = \<lparr>AgentCPU = ''500m'', AgentMemory = ''1Gi'', GatewayCPU = ''250m'',
                          GatewayMemory = ''512Mi'', WorkspaceSize = ''500Mi''\<rparr> \<and>
           Status t = ''active'')"
proof -
  define cl where "cl = snd (Apply sample_applier sample_manifests [])"
  have a: "Apply (applier sample_service) sample_manifests (cluster empty_world) = (None, cl)"
    using sample_apply by (simp add: cl_def prod_eq_iff sample_service_def empty_world_def)
  have h: "cr_TenantID acme_request = ''acme''" "cr_DisplayName acme_request = ''ACME''"
    "cr_Resources acme_request = None" "QueryRow_err (store sample_service) = None"
    "\<not> list_ex (\<lambda>r. ID r = ''acme'') (db empty_world)"
    by (simp_all add: acme_request_def sample_service_def sample_driver_def empty_world_def)
  have c: "buildConfigJSON (json_pkg sample_service) (cr_Providers acme_request)
             (cr_Agents acme_request) (cr_Channels acme_request) = Inr ''gateway{host,port,};''"
    using sample_config by (simp add: acme_request_def sample_service_def)
  have s: "Store_Create (store sample_service)
             (provisioning_tenant sample_service acme_request ''gateway{host,port,};'') (db empty_world) =
           (None, [provisioning_tenant sample_service acme_request ''gateway{host,port,};''])"
    by (simp add: Store_Create_def sample_service_def sample_driver_def empty_world_def)
  from Create_acme_defaults [OF h c sample_render a s] h show ?thesis by blast
qed

text \<open>
  C5.  When a record with the requested tenant ID exists, \<open>Create\<close> returns an
  error and leaves the store and the cluster as they were, so no apply is
  attempted; for a request that passes validation, on a store that answers the
  lookup, the error is the \<open>ConflictError\<close>.  In particular, after a
  \<open>Create\<close> that succeeded, a second \<open>Create\<close> with the same ID fails with
  the \<open>ConflictError\<close> and changes nothing.
\<close>

theorem Create_existing_conflict:
  "(list_ex (\<lambda>r. ID r = cr_TenantID req) (db w) \<longrightarrow>
      (\<exists>e. Service_Create s req w = (Inl e, w)) \<and>
      (validateTenantID (cr_TenantID req) = None \<and> cr_DisplayName req \<noteq> [] \<and>
       QueryRow_err (store s) = None \<longrightarrow>
         Service_Create s req w = (Inl (ConflictError (cr_TenantID req)), w))) \<and>
   (Service_Create s0 req0 w0 = (Inr t0, w) \<and> cr_TenantID req = cr_TenantID req0 \<and>
    cr_DisplayName req \<noteq> [] \<and> QueryRow_err (store s) = None \<longrightarrow>
      Service_Create s req w = (Inl (ConflictError (cr_TenantID req)), w))"
proof -
  have conflict: "Service_Create s req w = (Inl (ConflictError (cr_TenantID req)), w)"
    if ex: "list_ex (\<lambda>r. ID r = cr_TenantID req) (db w)"
      and v: "validateTenantID (cr_TenantID req) = None"
      and d: "cr_DisplayName req \<noteq> []" and q: "QueryRow_err (store s) = None"
    for s :: Service and req w
  proof -
    from Store_Get_existing [OF q ex] obtain t where
      "Store_Get (store s) (cr_TenantID req) (db w) = Inr (Some t)" by blast
    with v d show ?thesis by (simp add: Service_Create_def)
  qed
  have err: "\<exists>e. Service_Create s req w = (Inl e, w)"
    if ex: "list_ex (\<lambda>r. ID r = cr_TenantID req) (db w)"
  proof (cases "validateTenantID (cr_TenantID req)")
    case (Some e)
    then show ?thesis by (simp add: Service_Create_def)
  next
    case None
    show ?thesis
    proof (cases "cr_DisplayName req = []")
      case True
      with None show ?thesis by (simp add: Service_Create_def)
    next
      case False
      show ?thesis
      proof (cases "QueryRow_err (store s)")
        case (Some e)
        with None False show ?thesis by (simp add: Service_Create_def Store_Get_def)
      next
        case q: None
        from conflict [OF ex None False q] show ?thesis by blast
      qed
    qed
  qed
  have twice: "Service_Create s req w = (Inl (ConflictError (cr_TenantID req)), w)"
    if first: "Service_Create s0 req0 w0 = (Inr t0, w)"
      and same: "cr_TenantID req = cr_TenantID req0"
      and d: "cr_DisplayName req \<noteq> []" and q: "QueryRow_err (store s) = None"
  proof -
    from first have "validateTenantID (cr_TenantID req0) = None"
      by (auto simp: Service_Create_def split: option.splits)
    moreover from Service_Create_success_row [OF first] same
    have "list_ex (\<lambda>r. ID r = cr_TenantID req) (db w)" by simp
    ultimately show ?thesis using conflict d q same by simp
  qed
  from err conflict twice show ?thesis by blast
qed

theorem Create_existing_conflict_witness:
  "\<exists>t w. Service_Create sample_service acme_request empty_world = (Inr t, w) \<and>
          Service_Create sample_service acme_request w = (Inl (ConflictError ''acme''), w)"
proof -
  from sample_create obtain t w where
    first: "Service_Create sample_service acme_request empty_world = (Inr t, w)" by blast
  have "cr_TenantID acme_request = cr_TenantID acme_request \<and> cr_DisplayName acme_request \<noteq> [] \<and>
        QueryRow_err (store sample_service) = None"
    by (simp add: acme_request_def sample_service_def sample_driver_def)
  with first Create_existing_conflict [of acme_request w sample_service sample_service acme_request empty_world t]
  have "Service_Create sample_service acme_request w = (Inl (ConflictError (cr_TenantID acme_request)), w)"
    by simp
  with first show ?thesis by (auto simp: acme_request_def)
qed

text \<open>
  C6.  When the cluster apply of \<open>Create\<close> has succeeded and the insert of the
  record fails with an error, \<open>Create\<close> issues the deletion of the namespace it
  just created and returns the store's error wrapped as \<open>store tenant\<close> (the
  \<open>PersistenceError\<close>).  The cluster's answer to the deletion occurs nowhere in
  the result: it is the same whether the deletion succeeds or fails.
\<close>

theorem Create_store_failure_cleanup:
  assumes "validateTenantID (cr_TenantID req) = None"
    and "cr_DisplayName req \<noteq> []"
    and "Store_Get (store s) (cr_TenantID req) (db w) = Inr None"
    and "buildConfigJSON (json_pkg s) (cr_Providers req) (cr_Agents req) (cr_Channels req) = Inr configJSON"
    and "RenderAll (renderer s) (ToVars (provisioning_tenant s req configJSON) (image' s)) = Inr manifests"
    and "Apply (applier s) manifests (cluster w) = (None, cl)"
    and "Store_Create (store s) (provisioning_tenant s req configJSON) (db w) = (Some e, rows)"
  shows "Service_Create s req w =
           (Inl (Wrap ''store tenant'' e),
            \<lparr>db = db w,
             cluster = cl @ [DeleteNamespaceCall (''picoclaw-tenant-'' @ cr_TenantID req)]\<rparr>)"
  using Service_Create_applied [OF assms(1-6)] assms(7) Store_Create_failure_rows [OF assms(7)]
  by (simp add: DeleteNamespace_calls)

text \<open>
  Two sample runs, the deletion succeeding in one and failing in the other: the
  caller sees the same error.
\<close>

lemma insert_failing_parts:
  "renderer (insert_failing_service c) = renderer sample_service"
  "json_pkg (insert_failing_service c) = sample_json"
  "image' (insert_failing_service c) = image' sample_service"
  "store (insert_failing_service c) = sample_driver\<lparr>Insert_err := Some ''connection refused''\<rparr>"
  "lib (applier (insert_failing_service c)) = sample_lib"
  "NewDiscoveryClient (client (applier (insert_failing_service c))) = None"
  by (simp_all add: insert_failing_service_def sample_service_def sample_cluster_def)

lemma insert_failing_apply:
  "fst (Apply (applier (insert_failing_service c)) sample_manifests []) = None"
  by (simp add: Apply_def parseYAMLDocuments_def insert_failing_service_def sample_lib_def
      sample_kind_def sample_cluster_def is_space_def sample_manifests_def)

theorem Create_store_failure_cleanup_witness:
  "fst (Service_Create (insert_failing_service None) acme_request empty_world) =
     Inl (Wrap ''store tenant'' (Wrap ''insert tenant'' (External ''connection refused''))) \<and>
   fst (Service_Create (insert_failing_service (Some ''timeout'')) acme_request empty_world) =
     Inl (Wrap ''store tenant'' (Wrap ''insert tenant'' (External ''connection refused''))) \<and>
   last (cluster (snd (Service_Create (insert_failing_service (Some ''timeout'')) acme_request
                         empty_world))) =
     DeleteNamespaceCall ''picoclaw-tenant-acme'' \<and>
   db (snd (Service_Create (insert_failing_service (Some ''timeout'')) acme_request empty_world)) = []"
proof -
  have run: "Service_Create (insert_failing_service c) acme_request empty_world =
     (Inl (Wrap ''store tenant'' (Wrap ''insert tenant'' (External ''connection refused''))),
      \<lparr>db = db empty_world,
       cluster = snd (Apply (applier (insert_failing_service c)) sample_manifests []) @
                 [DeleteNamespaceCall (''picoclaw-tenant-'' @ cr_TenantID acme_request)]\<rparr>)"
    for c
  proof -
  let ?s = "insert_failing_service c"
  define cl where "cl = snd (Apply (applier ?s) sample_manifests [])"
  have v: "validateTenantID (cr_TenantID acme_request) = None"
    using sample_validate by (simp add: acme_request_def)
  have d: "cr_DisplayName acme_request \<noteq> []" by (simp add: acme_request_def)
  have g: "Store_Get (store ?s) (cr_TenantID acme_request) (db empty_world) = Inr None"
    by (simp add: Store_Get_def insert_failing_parts sample_driver_def empty_world_def)
  have c: "buildConfigJSON (json_pkg ?s) (cr_Providers acme_request)
             (cr_Agents acme_request) (cr_Channels acme_request) = Inr ''gateway{host,port,};''"
    using sample_config by (simp add: acme_request_def insert_failing_parts)
  have r: "RenderAll (renderer ?s) (ToVars (provisioning_tenant ?s acme_request ''gateway{host,port,};'') (image' ?s)) =
             Inr sample_manifests"
    by (simp only: insert_failing_parts sample_render)
  have a: "Apply (applier ?s) sample_manifests (cluster empty_world) = (None, cl)"
    using insert_failing_apply [of c] by (simp add: cl_def prod_eq_iff empty_world_def)
  have f: "Store_Create (store ?s) (provisioning_tenant ?s acme_request ''gateway{host,port,};'') (db empty_world) =
             (Some (Wrap ''insert tenant'' (External ''connection refused'')), db empty_world)"
    by (simp add: Store_Create_def insert_failing_parts sample_driver_def)
    show ?thesis
      unfolding cl_def [symmetric]
      by (rule Create_store_failure_cleanup [OF v d g c r a f])
  qed
  show ?thesis unfolding run by (simp add: acme_request_def empty_world_def)
qed

text \<open>
  C10.  Validation accepts IDs of up to 53 characters, and the prefix
  \<open>picoclaw-tenant-\<close> has 16: for the accepted ID of 53 letters \<open>a\<close>,
  \<open>Create\<close> succeeds and the namespace of the tenant has 69 characters, more
  than the 63 of a DNS label; the pattern of validation itself rejects it.
\<close>

theorem namespace_longer_than_label:
  "validateTenantID ''aaaaaaaaaaaaaaaaaaaaaaaaaaaaaaaaaaaaaaaaaaaaaaaaaaaaa'' = None \<and>
   (\<exists>t w'. Service_Create sample_service
             (acme_request\<lparr>cr_TenantID := ''aaaaaaaaaaaaaaaaaaaaaaaaaaaaaaaaaaaaaaaaaaaaaaaaaaaaa''\<rparr>)
             empty_world = (Inr t, w') \<and>
           Namespace t =
             ''picoclaw-tenant-aaaaaaaaaaaaaaaaaaaaaaaaaaaaaaaaaaaaaaaaaaaaaaaaaaaaa'' \<and>
           length (Namespace t) = 69 \<and>
           \<not> dnsNameRegex_MatchString (Namespace t))"
proof -
  let ?req = "acme_request\<lparr>cr_TenantID := ''aaaaaaaaaaaaaaaaaaaaaaaaaaaaaaaaaaaaaaaaaaaaaaaaaaaaa''\<rparr>"
  have v: "validateTenantID ''aaaaaaaaaaaaaaaaaaaaaaaaaaaaaaaaaaaaaaaaaaaaaaaaaaaaa'' = None"
    by (simp add: validateTenantID_def dnsNameRegex_MatchString_def lower_alnum_def label_char_def)
  then have "validateTenantID (cr_TenantID ?req) = None" by simp
  from sample_create_any [OF this] obtain t w' where
    run: "Service_Create sample_service ?req empty_world = (Inr t, w')"
    by (auto simp: acme_request_def)
  from Service_Create_namespace [OF run]
  have ns: "Namespace t = ''picoclaw-tenant-aaaaaaaaaaaaaaaaaaaaaaaaaaaaaaaaaaaaaaaaaaaaaaaaaaaaa''"
    by simp
  have "length (Namespace t) = 69 \<and> \<not> dnsNameRegex_MatchString (Namespace t)"
    unfolding ns by (simp add: dnsNameRegex_MatchString_def)
  with v run ns show ?thesis by blast
qed

section \<open>Delete\<close>

text \<open>
  C7.  On a store that answers the lookup, \<open>Delete\<close> of an ID without a record
  returns the \<open>NotFoundError\<close> and leaves the cluster and the store as they
  were.  For an existing tenant, when the cluster refuses the deletion of the
  namespace, \<open>Delete\<close> returns that error, the rows of the store are unchanged,
  and the tenant is still returned by \<open>Get\<close> and listed by \<open>List\<close>.
\<close>

theorem Delete_not_found_or_cluster_failure:
  "(QueryRow_err (store s) = None \<and> \<not> list_ex (\<lambda>r. ID r = tid) (db w) \<longrightarrow>
      Service_Delete s tid w = (Some (NotFoundError tid), w)) \<and>
   (Store_Get (store s) tid (db w) = Inr (Some t) \<and>
    Namespaces_Delete (client (applier s)) (cluster w) (Namespace t) = Some e \<longrightarrow>
      (\<exists>w'. Service_Delete s tid w =
               (Some (Wrap ''delete namespace''
                        (Wrap (''delete namespace '' @ Namespace t) (External e))), w') \<and>
             db w' = db w \<and>
             cluster w' = cluster w @ [DeleteNamespaceCall (Namespace t)] \<and>
             Service_Get s tid w' = Inr (Some t) \<and>
             (Query_err (store s) = None \<longrightarrow>
                (\<exists>ts. Service_List s w' = Inr ts \<and> t \<in> set ts))))"
proof (intro conjI impI)
  assume "QueryRow_err (store s) = None \<and> \<not> list_ex (\<lambda>r. ID r = tid) (db w)"
  then show "Service_Delete s tid w = (Some (NotFoundError tid), w)"
    by (simp add: Service_Delete_def Store_Get_None)
next
  assume a: "Store_Get (store s) tid (db w) = Inr (Some t) \<and>
    Namespaces_Delete (client (applier s)) (cluster w) (Namespace t) = Some e"
  let ?w' = "w\<lparr>cluster := cluster w @ [DeleteNamespaceCall (Namespace t)]\<rparr>"
  from a have del: "Service_Delete s tid w =
      (Some (Wrap ''delete namespace'' (Wrap (''delete namespace '' @ Namespace t) (External e))), ?w')"
    by (simp add: Service_Delete_def DeleteNamespace_def)
  from a have get: "Service_Get s tid ?w' = Inr (Some t)"
    by (simp add: Service_Get_def)
  from a have "t \<in> set (db w)" using Store_Get_Some_row by blast
  then have lst: "Query_err (store s) = None \<longrightarrow> (\<exists>ts. Service_List s ?w' = Inr ts \<and> t \<in> set ts)"
    by (simp add: Service_List_def Store_List_def)
  from del get lst
  show "\<exists>w'. Service_Delete s tid w =
               (Some (Wrap ''delete namespace''
                        (Wrap (''delete namespace '' @ Namespace t) (External e))), w') \<and>
             db w' = db w \<and>
             cluster w' = cluster w @ [DeleteNamespaceCall (Namespace t)] \<and>
             Service_Get s tid w' = Inr (Some t) \<and>
             (Query_err (store s) = None \<longrightarrow>
                (\<exists>ts. Service_List s w' = Inr ts \<and> t \<in> set ts))"
    by (intro exI [of _ ?w']) simp
qed

theorem Delete_not_found_or_cluster_failure_witness:
  "Service_Delete sample_service ''ghost'' acme_world = (Some (NotFoundError ''ghost''), acme_world) \<and>
   (\<exists>w'. Service_Delete
            (sample_service\<lparr>applier := \<lparr>lib = sample_lib,
               client = sample_cluster\<lparr>Namespaces_Delete := (\<lambda>cl ns. Some ''forbidden'')\<rparr>\<rparr>\<rparr>)
            ''acme'' acme_world =
          (Some (Wrap ''delete namespace''
                   (Wrap ''delete namespace picoclaw-tenant-acme'' (External ''forbidden''))), w') \<and>
        db w' = [acme_tenant] \<and>
        cluster w' = [DeleteNamespaceCall ''picoclaw-tenant-acme''])"
proof -
  let ?s = "sample_service\<lparr>applier := \<lparr>lib = sample_lib,
               client = sample_cluster\<lparr>Namespaces_Delete := (\<lambda>cl ns. Some ''forbidden'')\<rparr>\<rparr>\<rparr>"
  have 1: "QueryRow_err (store sample_service) = None \<and>
           \<not> list_ex (\<lambda>r. ID r = ''ghost'') (db acme_world)"
    by (simp add: sample_service_def sample_driver_def acme_world_def acme_tenant_def)
  have 2: "Store_Get (store ?s) ''acme'' (db acme_world) = Inr (Some acme_tenant) \<and>
           Namespaces_Delete (client (applier ?s)) (cluster acme_world) (Namespace acme_tenant) =
             Some ''forbidden''"
    by (simp add: Store_Get_def sample_service_def sample_driver_def acme_world_def acme_tenant_def)
  from 1 Delete_not_found_or_cluster_failure [of sample_service "''ghost''" acme_world]
  have a: "Service_Delete sample_service ''ghost'' acme_world = (Some (NotFoundError ''ghost''), acme_world)"
    by simp
  from 2 Delete_not_found_or_cluster_failure [of ?s "''acme''" acme_world acme_tenant "''forbidden''"]
  obtain w' where "Service_Delete ?s ''acme'' acme_world =
      (Some (Wrap ''delete namespace''
         (Wrap (''delete namespace '' @ Namespace acme_tenant) (External ''forbidden''))), w')"
    "db w' = db acme_world" "cluster w' = cluster acme_world @ [DeleteNamespaceCall (Namespace acme_tenant)]"
    by auto
  then have "Service_Delete ?s ''acme'' acme_world =
          (Some (Wrap ''delete namespace''
                   (Wrap ''delete namespace picoclaw-tenant-acme'' (External ''forbidden''))), w') \<and>
        db w' = [acme_tenant] \<and>
        cluster w' = [DeleteNamespaceCall ''picoclaw-tenant-acme'']"
    by (simp add: acme_world_def acme_tenant_def)
  with a show ?thesis by blast
qed

section \<open>Update\<close>

lemma rebuild_config_unchanged:
  "ur_Providers req = None \<Longrightarrow> ur_Agents req = None \<Longrightarrow> ur_Channels req = None \<Longrightarrow>
   rebuild_config j req t = Inr t"
  by (simp add: rebuild_config_def)

lemma rebuild_config_providers:
  assumes "ur_Providers req = Some p" and "rebuild_config j req t = Inr t'"
  shows "\<exists>existing doc. Unmarshal j (ConfigJSON t) = Inr (Some existing) \<and>
           MarshalIndent j doc = Inr (ConfigJSON t') \<and>
           ID t' = ID t \<and>
           map_of doc ''providers'' = Some (JObject p) \<and>
           (ur_Agents req = None \<longrightarrow> map_of doc ''agents'' = map_of existing ''agents'') \<and>
           (ur_Agents req = None \<and> ur_Channels req = None \<longrightarrow>
              map_of doc = (map_of existing)(''providers'' \<mapsto> JObject p))"
proof -
  from assms obtain existing where
    u: "Unmarshal j (ConfigJSON t) = Inr (Some existing)"
    by (auto simp: rebuild_config_def split: sum.splits option.splits)
  define doc where "doc =
    (let existing = AList.update ''providers'' (JObject p) existing;
         existing = (case ur_Agents req of
                       Some a \<Rightarrow> AList.update ''agents'' (JObject a) existing
                     | None \<Rightarrow> existing);
         existing = (case ur_Channels req of
                       Some c \<Rightarrow> AList.update ''channels'' (JObject c) existing
                     | None \<Rightarrow> existing)
     in existing)"
  from assms u have m: "MarshalIndent j doc = Inr (ConfigJSON t')" and t': "ID t' = ID t"
    by (auto simp: rebuild_config_def doc_def Let_def split: sum.splits)
  have d1: "map_of doc ''providers'' = Some (JObject p)"
    by (simp add: doc_def Let_def update_conv' split: option.splits)
  have d2: "ur_Agents req = None \<longrightarrow> map_of doc ''agents'' = map_of existing ''agents''"
    by (simp add: doc_def Let_def update_conv' split: option.splits)
  have d3: "ur_Agents req = None \<and> ur_Channels req = None \<longrightarrow>
              map_of doc = (map_of existing)(''providers'' \<mapsto> JObject p)"
    by (simp add: doc_def Let_def update_conv')
  show ?thesis
    by (intro exI [of _ existing] exI [of _ doc] conjI) (rule u m t' d1 d2 d3)+
qed

lemma sample_update:
  assumes "ur_Resources req = None"
    and "rebuild_config sample_json req
           (if ur_DisplayName req \<noteq> [] then acme_tenant\<lparr>DisplayName := ur_DisplayName req\<rparr>
            else acme_tenant) = Inr tc"
    and "ID tc = ''acme''"
  shows "\<exists>t' w'. Service_Update sample_service ''acme'' req acme_world = (Inr t', w')"
proof -
  define cl where "cl = snd (Apply sample_applier sample_manifests [])"
  have a: "Apply (applier sample_service) sample_manifests (cluster acme_world) = (None, cl)"
    using sample_apply by (simp add: cl_def prod_eq_iff sample_service_def acme_world_def)
  have j: "json_pkg sample_service = sample_json" by (simp add: sample_service_def)
  have u: "fst (Store_Update (store sample_service) (clock sample_service 0) tc (db acme_world)) = None"
    using assms(3)
    by (simp add: Store_Update_def sample_service_def sample_driver_def acme_world_def
        acme_tenant_def Let_def)
  obtain t' rows where su:
    "Store_Update (store sample_service) (clock sample_service 0) tc (db acme_world) = (None, t', rows)"
    using u by (metis fst_conv prod_cases3)
  show ?thesis
    by (simp add: Service_Update_def sample_get_acme j assms(1,2) sample_render a su Let_def)
qed

text \<open>
  C9.  For an existing tenant, an \<open>Update\<close> whose request supplies no
  providers, agents, channels or resources leaves the stored configuration
  document and the five resource limits of the tenant as they were, whatever the
  outcome of the call; and the tenant it returns on success has the same
  configuration document and resource limits (and the new display name, when one
  is supplied).
\<close>

theorem Update_display_name_only:
  assumes "ur_Providers req = None" and "ur_Agents req = None" and "ur_Channels req = None"
    and "ur_Resources req = None"
    and get: "Store_Get (store s) tid (db w) = Inr (Some t)"
  shows "\<exists>r w' t2. Service_Update s tid req w = (r, w') \<and>
           Store_Get (store s) tid (db w') = Inr (Some t2) \<and>
           ConfigJSON t2 = ConfigJSON t \<and> Resources t2 = Resources t \<and>
           (\<forall>t'. r = Inr t' \<longrightarrow>
              ConfigJSON t' = ConfigJSON t \<and> Resources t' = Resources t \<and>
              (ur_DisplayName req \<noteq> [] \<longrightarrow> DisplayName t' = ur_DisplayName req))"
proof -
  define t1 where "t1 = (if ur_DisplayName req \<noteq> [] then t\<lparr>DisplayName := ur_DisplayName req\<rparr> else t)"
  have t1: "ConfigJSON t1 = ConfigJSON t" "Resources t1 = Resources t" "ID t1 = ID t"
    "ur_DisplayName req \<noteq> [] \<longrightarrow> DisplayName t1 = ur_DisplayName req"
    by (simp_all add: t1_def)
  from get have tid: "ID t1 = tid" using Store_Get_Some_row t1(3) by metis
  have rc: "rebuild_config (json_pkg s) req t1 = Inr t1"
    using assms(1-3) by (rule rebuild_config_unchanged)
  have unfold: "Service_Update s tid req w =
     (case RenderAll (renderer s) (ToVars t1 (image' s)) of
        Inl e \<Rightarrow> (Inl (Wrap ''render templates'' e), w)
      | Inr manifests \<Rightarrow>
     (case Apply (applier s) manifests (cluster w) of
        (Some e, cl) \<Rightarrow> (Inl (Wrap ''apply manifests'' e), w\<lparr>cluster := cl\<rparr>)
      | (None, cl) \<Rightarrow>
     (case Store_Update (store s) (clock s 0) t1 (db w) of
        (Some e, t, rows) \<Rightarrow> (Inl (Wrap ''store update'' e), \<lparr>db = rows, cluster = cl\<rparr>)
      | (None, t, rows) \<Rightarrow> (Inr t, \<lparr>db = rows, cluster = cl\<rparr>))))"
    using get rc assms(4) unfolding t1_def by (simp add: Service_Update_def Let_def)
  show ?thesis
  proof (cases "RenderAll (renderer s) (ToVars t1 (image' s))")
    case (Inl e)
    with unfold get show ?thesis by simp
  next
    case (Inr manifests)
    from Apply_cases [of "applier s" manifests "cluster w"] show ?thesis
    proof (elim disjE exE)
      fix e cl assume "Apply (applier s) manifests (cluster w) = (Some e, cl)"
      with unfold Inr get show ?thesis by simp
    next
      fix cl assume a: "Apply (applier s) manifests (cluster w) = (None, cl)"
      obtain r t' rows where su: "Store_Update (store s) (clock s 0) t1 (db w) = (r, t', rows)"
        by (metis prod_cases3)
      from Store_Update_Get [OF get tid su] obtain t2 where
        g2: "Store_Get (store s) tid rows = Inr (Some t2)"
        and ok: "r = None \<longrightarrow> ConfigJSON t2 = ConfigJSON t1 \<and> Resources t2 = Resources t1"
        and ko: "r \<noteq> None \<longrightarrow> t2 = t" by blast
      have t': "t' = t1\<lparr>UpdatedAt := clock s 0\<rparr>" using Store_Update_tenant [OF su] .
      show ?thesis
      proof (cases r)
        case None
        with unfold Inr a su g2 ok t1 t' show ?thesis by simp
      next
        case (Some e)
        with unfold Inr a su g2 ko show ?thesis by simp
      qed
    qed
  qed
qed

theorem Update_display_name_only_witness:
  "ur_Providers rename_request = None \<and> ur_Agents rename_request = None \<and>
   ur_Channels rename_request = None \<and> ur_Resources rename_request = None \<and>
   Store_Get (store sample_service) ''acme'' (db acme_world) = Inr (Some acme_tenant) \<and>
   (\<exists>t' w' t2. Service_Update sample_service ''acme'' rename_request acme_world = (Inr t', w') \<and>
      Store_Get (store sample_service) ''acme'' (db w') = Inr (Some t2) \<and>
      ConfigJSON t2 = ''gateway{host,port,};agents{main,};providers{anthropic,};'' \<and> Resources t2 = DefaultResources \<and>
      ConfigJSON t' = ''gateway{host,port,};agents{main,};providers{anthropic,};'' \<and> Resources t' = DefaultResources \<and>
      DisplayName t' = ''Acme Corp'')"
proof -
  have h: "ur_Providers rename_request = None" "ur_Agents rename_request = None"
    "ur_Channels rename_request = None" "ur_Resources rename_request = None"
    by (simp_all add: rename_request_def)
  have n: "ur_DisplayName rename_request = ''Acme Corp''" by (simp add: rename_request_def)
  have rc: "rebuild_config sample_json rename_request
           (if ur_DisplayName rename_request \<noteq> []
            then acme_tenant\<lparr>DisplayName := ur_DisplayName rename_request\<rparr>
            else acme_tenant) = Inr (acme_tenant\<lparr>DisplayName := ''Acme Corp''\<rparr>)"
    by (simp add: rebuild_config_def rename_request_def)
  from sample_update [OF h(4) rc] obtain t' w' where
    run: "Service_Update sample_service ''acme'' rename_request acme_world = (Inr t', w')"
    by (auto simp: acme_tenant_def)
  from Update_display_name_only [OF h sample_get_acme] run obtain t2 where
    "Store_Get (store sample_service) ''acme'' (db w') = Inr (Some t2)"
    "ConfigJSON t2 = ConfigJSON acme_tenant" "Resources t2 = Resources acme_tenant"
    "ConfigJSON t' = ConfigJSON acme_tenant" "Resources t' = Resources acme_tenant"
    "ur_DisplayName rename_request \<noteq> [] \<longrightarrow> DisplayName t' = ur_DisplayName rename_request"
    by auto
  then have "Store_Get (store sample_service) ''acme'' (db w') = Inr (Some t2) \<and>
      ConfigJSON t2 = ''gateway{host,port,};agents{main,};providers{anthropic,};'' \<and> Resources t2 = DefaultResources \<and>
      ConfigJSON t' = ''gateway{host,port,};agents{main,};providers{anthropic,};'' \<and> Resources t' = DefaultResources \<and>
      DisplayName t' = ''Acme Corp''"
    using n by (simp add: acme_tenant_def)
  with run h sample_get_acme show ?thesis by blast
qed

text \<open>
  C3.  For an existing tenant and a request that supplies providers, the
  configuration document of the tenant that \<open>Update\<close> returns (and stores) is
  the serialisation of a document in which the key \<open>providers\<close> holds exactly
  the supplied value, whatever it held before, and in which the key \<open>agents\<close>,
  when the request does not supply it, holds what it held in the previous
  document; when neither agents nor channels are supplied, the document is the
  previous one with the key \<open>providers\<close> replaced.
\<close>

theorem Update_replaces_providers:
  assumes get: "Store_Get (store s) tid (db w) = Inr (Some t)"
    and p: "ur_Providers req = Some p"
    and ok: "Service_Update s tid req w = (Inr t', w')"
  shows "\<exists>existing doc t2.
           Unmarshal (json_pkg s) (ConfigJSON t) = Inr (Some existing) \<and>
           MarshalIndent (json_pkg s) doc = Inr (ConfigJSON t') \<and>
           map_of doc ''providers'' = Some (JObject p) \<and>
           (ur_Agents req = None \<longrightarrow> map_of doc ''agents'' = map_of existing ''agents'') \<and>
           (ur_Agents req = None \<and> ur_Channels req = None \<longrightarrow>
              map_of doc = (map_of existing)(''providers'' \<mapsto> JObject p)) \<and>
           Store_Get (store s) tid (db w') = Inr (Some t2) \<and> ConfigJSON t2 = ConfigJSON t'"
proof -
  define t1 where "t1 = (if ur_DisplayName req \<noteq> [] then t\<lparr>DisplayName := ur_DisplayName req\<rparr> else t)"
  from ok get obtain tc where rc: "rebuild_config (json_pkg s) req t1 = Inr tc"
    by (auto simp: Service_Update_def Let_def t1_def split: sum.splits)
  define t3 where "t3 = (case ur_Resources req of
                 Some r \<Rightarrow> tc\<lparr>Resources := mergeResources (Resources tc) r\<rparr>
               | None \<Rightarrow> tc)"
  from ok get rc obtain rows cl where
    su: "Store_Update (store s) (clock s 0) t3 (db w) = (None, t', rows)"
    and w': "w' = \<lparr>db = rows, cluster = cl\<rparr>"
    by (auto simp: Service_Update_def Let_def t1_def t3_def
        split: sum.splits option.splits prod.splits)
  from rebuild_config_providers [OF p rc] obtain existing doc where
    u: "Unmarshal (json_pkg s) (ConfigJSON t1) = Inr (Some existing)"
    and m: "MarshalIndent (json_pkg s) doc = Inr (ConfigJSON tc)"
    and tc: "ID tc = ID t1"
    and d: "map_of doc ''providers'' = Some (JObject p)"
      "ur_Agents req = None \<longrightarrow> map_of doc ''agents'' = map_of existing ''agents''"
      "ur_Agents req = None \<and> ur_Channels req = None \<longrightarrow>
              map_of doc = (map_of existing)(''providers'' \<mapsto> JObject p)"
    by (elim exE conjE) (rule that)
  have c1: "ConfigJSON t1 = ConfigJSON t" and i1: "ID t1 = ID t" by (simp_all add: t1_def)
  have i3: "ID t3 = tid"
    using tc i1 Store_Get_Some_row [OF get] by (simp add: t3_def split: option.splits)
  have c3: "ConfigJSON t3 = ConfigJSON tc" by (simp add: t3_def split: option.splits)
  have c': "ConfigJSON t' = ConfigJSON tc" using Store_Update_tenant [OF su] c3 by simp
  from Store_Update_Get [OF get i3 su] obtain t2 where
    "Store_Get (store s) tid rows = Inr (Some t2)" "ConfigJSON t2 = ConfigJSON t3" by auto
  with u m d c1 c3 c' w' show ?thesis by auto
qed

theorem Update_replaces_providers_witness:
  "Store_Get (store sample_service) ''acme'' (db acme_world) = Inr (Some acme_tenant) \<and>
   ur_Providers providers_request = Some [(''openai'', JString ''key'')] \<and>
   (\<exists>t' w' existing doc.
      Service_Update sample_service ''acme'' providers_request acme_world = (Inr t', w') \<and>
      Unmarshal (json_pkg sample_service) (ConfigJSON acme_tenant) = Inr (Some existing) \<and>
      map_of existing ''providers'' = Some (JObject [(''anthropic'', JString ''old'')]) \<and>
      MarshalIndent (json_pkg sample_service) doc = Inr (ConfigJSON t') \<and>
      map_of doc ''providers'' = Some (JObject [(''openai'', JString ''key'')]) \<and>
      map_of doc ''agents'' = Some (JObject [(''main'', JString ''a1'')]))"
proof -
  have p: "ur_Providers providers_request = Some [(''openai'', JString ''key'')]"
    and ag: "ur_Agents providers_request = None"
    by (simp_all add: providers_request_def)
  have rc: "rebuild_config sample_json providers_request
           (if ur_DisplayName providers_request \<noteq> []
            then acme_tenant\<lparr>DisplayName := ur_DisplayName providers_request\<rparr>
            else acme_tenant) = Inr (acme_tenant\<lparr>ConfigJSON := ''gateway{host,port,};agents{main,};providers{openai,};''\<rparr>)"
    by (simp add: rebuild_config_def providers_request_def sample_json_def sample_keys_def
        sample_gateway_def acme_tenant_def)
  from sample_update [OF _ rc] obtain t' w' where
    run: "Service_Update sample_service ''acme'' providers_request acme_world = (Inr t', w')"
    by (auto simp: providers_request_def acme_tenant_def)
  from Update_replaces_providers [OF sample_get_acme p run] obtain existing doc where
    "Unmarshal (json_pkg sample_service) (ConfigJSON acme_tenant) = Inr (Some existing)"
    "MarshalIndent (json_pkg sample_service) doc = Inr (ConfigJSON t')"
    "map_of doc ''providers'' = Some (JObject [(''openai'', JString ''key'')])"
    "ur_Agents providers_request = None \<longrightarrow> map_of doc ''agents'' = map_of existing ''agents''"
    by (elim exE conjE) (rule that)
  moreover from this(1) have "map_of existing ''agents'' = Some (JObject [(''main'', JString ''a1'')])"
    "map_of existing ''providers'' = Some (JObject [(''anthropic'', JString ''old'')])"
    by (auto simp: sample_service_def sample_json_def acme_tenant_def)
  ultimately have "Unmarshal (json_pkg sample_service) (ConfigJSON acme_tenant) = Inr (Some existing) \<and>
      map_of existing ''providers'' = Some (JObject [(''anthropic'', JString ''old'')]) \<and>
      MarshalIndent (json_pkg sample_service) doc = Inr (ConfigJSON t') \<and>
      map_of doc ''providers'' = Some (JObject [(''openai'', JString ''key'')]) \<and>
      map_of doc ''agents'' = Some (JObject [(''main'', JString ''a1'')])"
    using ag by simp
  with run sample_get_acme p show ?thesis by blast
qed

end
